theory Spec2Isabelle
  imports Complex_Main "HOL-Library.Sublist" "HOL-Library.Multiset"
begin

section \<open>Strings\<close>

text \<open>
  A Python \<open>str\<close> is modelled as a \<open>string\<close> whose characters are the code points
  U+0000 .. U+00FF: the character \<open>CHR n\<close> stands for the code point \<open>n\<close>. The
  address pattern of \<open>post_processing.py\<close> names the letters A-Z, a-z and the seven
  German letters, all inside that range. Strings with code points above U+00FF are
  outside the model.
\<close>

definition cp :: "char \<Rightarrow> nat" where
  "cp c = of_char c"

text \<open>\<open>str.isspace\<close> on one character: TAB .. CR, FS .. US, SPACE, NEL, NBSP.\<close>

definition is_space :: "char \<Rightarrow> bool" where
  "is_space c = ((9 \<le> cp c \<and> cp c \<le> 13) \<or> (28 \<le> cp c \<and> cp c \<le> 32) \<or> cp c = 133 \<or> cp c = 160)"

text \<open>The class \<open>\d\<close> of \<open>re\<close> on a \<open>str\<close> pattern: decimal digits.\<close>

definition is_digit :: "char \<Rightarrow> bool" where
  "is_digit c = (48 \<le> cp c \<and> cp c \<le> 57)"

text \<open>
  The word characters of \<open>re\<close> (\<open>\w\<close>, which decides \<open>\b\<close>): alphanumeric code
  points and the underscore. Below U+0100 these are the ASCII letters and digits, the
  ordinal indicators, the micro sign, the superscript digits, the vulgar fractions and
  the letters U+00C0 .. U+00FF without the multiplication and division signs.
\<close>

definition is_word :: "char \<Rightarrow> bool" where
  "is_word c =
     ((48 \<le> cp c \<and> cp c \<le> 57) \<or> (65 \<le> cp c \<and> cp c \<le> 90) \<or> cp c = 95
      \<or> (97 \<le> cp c \<and> cp c \<le> 122)
      \<or> cp c = 170 \<or> cp c = 178 \<or> cp c = 179 \<or> cp c = 181 \<or> cp c = 185 \<or> cp c = 186
      \<or> (188 \<le> cp c \<and> cp c \<le> 190)
      \<or> (192 \<le> cp c \<and> cp c \<le> 214) \<or> (216 \<le> cp c \<and> cp c \<le> 246) \<or> 248 \<le> cp c)"

text \<open>\<open>s.strip()\<close>\<close>

definition strip :: "string \<Rightarrow> string" where
  "strip s = rev (dropWhile is_space (rev (dropWhile is_space s)))"

text \<open>\<open>s.split(d)\<close> for a one-character separator: never the empty list.\<close>

fun split_on :: "char \<Rightarrow> string \<Rightarrow> string list" where
  "split_on d [] = [[]]"
| "split_on d (c # cs) =
     (if c = d then [] # split_on d cs
      else (case split_on d cs of [] \<Rightarrow> [[c]] | p # ps \<Rightarrow> (c # p) # ps))"

text \<open>\<open>s.replace(old, "", 1)\<close>: the first occurrence of \<open>old\<close> is removed.\<close>

fun replace_first :: "string \<Rightarrow> string \<Rightarrow> string" where
  "replace_first old [] = []"
| "replace_first old (c # cs) =
     (if prefix old (c # cs) then drop (length old) (c # cs) else c # replace_first old cs)"

text \<open>\<open>sub in s\<close>\<close>

fun contains :: "string \<Rightarrow> string \<Rightarrow> bool" where
  "contains sub [] = (sub = [])"
| "contains sub (c # cs) = (prefix sub (c # cs) \<or> contains sub cs)"

section \<open>The regular expressions the post-processor uses\<close>

text \<open>
  The fragment of \<open>re\<close> that the address pattern needs: a character class, the word
  boundary \<open>\b\<close>, a greedy repetition of a character class (\<open>{m,n}\<close> and \<open>+\<close>), a
  numbered group and concatenation. A match state is the position reached and the
  groups closed so far.
\<close>

datatype regex =
    Class "char \<Rightarrow> bool"
  | WordBoundary
  | Repeat nat "nat option" "char \<Rightarrow> bool"
  | Group nat regex
  | Seq regex regex

type_synonym groups = "(nat \<times> nat \<times> nat) list"

text \<open>\<open>\b\<close>: exactly one of the two neighbours of the position is a word character.\<close>

definition at_boundary :: "string \<Rightarrow> nat \<Rightarrow> bool" where
  "at_boundary s i =
     ((0 < i \<and> i \<le> length s \<and> is_word (s ! (i - 1))) \<noteq> (i < length s \<and> is_word (s ! i)))"

text \<open>The longest run of class characters from a position, cut at the upper bound.\<close>

definition run_length :: "(char \<Rightarrow> bool) \<Rightarrow> nat option \<Rightarrow> string \<Rightarrow> nat \<Rightarrow> nat" where
  "run_length P hi s i =
     (let n = length (takeWhile P (drop i s))
      in (case hi of None \<Rightarrow> n | Some h \<Rightarrow> min h n))"

text \<open>
  All the ways a pattern matches from a state, in the order in which the backtracking
  matcher tries them: a greedy repetition offers its longest run first.
\<close>

fun rmatch :: "regex \<Rightarrow> string \<Rightarrow> nat \<times> groups \<Rightarrow> (nat \<times> groups) list" where
  "rmatch (Class P) s (i, g) = (if i < length s \<and> P (s ! i) then [(Suc i, g)] else [])"
| "rmatch WordBoundary s (i, g) = (if at_boundary s i then [(i, g)] else [])"
| "rmatch (Repeat lo hi P) s (i, g) =
     map (\<lambda>n. (i + n, g)) (rev [lo ..< Suc (run_length P hi s i)])"
| "rmatch (Group k r) s (i, g) = map (\<lambda>(j, g'). (j, (k, i, j) # g')) (rmatch r s (i, g))"
| "rmatch (Seq r1 r2) s st = concat (map (rmatch r2 s) (rmatch r1 s st))"

text \<open>
  \<open>re.search\<close>: the start positions are tried from left to right, and the first
  match at the first position that has one is returned.
\<close>

fun first_match :: "regex \<Rightarrow> string \<Rightarrow> nat list \<Rightarrow> groups option" where
  "first_match r s [] = None"
| "first_match r s (i # starts) =
     (case rmatch r s (i, []) of [] \<Rightarrow> first_match r s starts | (j, g) # _ \<Rightarrow> Some g)"

definition re_search :: "regex \<Rightarrow> string \<Rightarrow> groups option" where
  "re_search r s = first_match r s [0 ..< Suc (length s)]"

text \<open>\<open>m.group(k)\<close>\<close>

definition match_group :: "string \<Rightarrow> groups \<Rightarrow> nat \<Rightarrow> string" where
  "match_group s g k = (case map_of g k of None \<Rightarrow> [] | Some (a, b) \<Rightarrow> take (b - a) (drop a s))"

section \<open>Address parsing (\<open>post_processing.py\<close>)\<close>

text \<open>The class \<open>[A-Za-z\<dots>\.\- ]\<close> with the letters U+00C4, D6, DC, E4, F6, FC, DF.\<close>

definition ort_char :: "char \<Rightarrow> bool" where
  "ort_char c =
     ((65 \<le> cp c \<and> cp c \<le> 90) \<or> (97 \<le> cp c \<and> cp c \<le> 122)
      \<or> cp c = 196 \<or> cp c = 214 \<or> cp c = 220 \<or> cp c = 228 \<or> cp c = 246 \<or> cp c = 252
      \<or> cp c = 223 \<or> cp c = 46 \<or> cp c = 45 \<or> cp c = 32)"

text \<open>\<open>pat = r"\b(\d{4,5})\s+([A-Za-z\<dots>\.\- ]+)\b"\<close>\<close>

definition pat :: regex where
  "pat =
     Seq WordBoundary
       (Seq (Group 1 (Repeat 4 (Some 5) is_digit))
          (Seq (Repeat 1 None is_space)
             (Seq (Group 2 (Repeat 1 None ort_char)) WordBoundary)))"

text \<open>
  The series that \<open>extract_address_parts\<close> returns; its three entries are named here
  after the local variables that fill them (the keys are Stra\<ss>e, PLZ and Ort).
\<close>

record address_parts =
  street :: "string option"
  plz :: "string option"
  ort :: "string option"

text \<open>\<open>parts = [p.strip() for p in addr.split(",") if p.strip()]\<close>\<close>

definition address_segments :: "string \<Rightarrow> string list" where
  "address_segments addr = filter (\<lambda>p. p \<noteq> []) (map strip (split_on (CHR '','') addr))"

text \<open>\<open>parts[1] if len(parts) > 1 else (addr.replace(street, "", 1) if street else addr)\<close>\<close>

definition plz_ort_source :: "string \<Rightarrow> string" where
  "plz_ort_source addr =
     (case address_segments addr of
        [] \<Rightarrow> addr
      | [p] \<Rightarrow> (if p \<noteq> [] then replace_first p addr else addr)
      | p # q # _ \<Rightarrow> q)"

text \<open>The two search tiers: the preferred source first, then the whole address.\<close>

definition plz_ort :: "string \<Rightarrow> (string \<times> string) option" where
  "plz_ort addr =
     (case re_search pat (plz_ort_source addr) of
        Some m \<Rightarrow> Some (strip (match_group (plz_ort_source addr) m 1), strip (match_group (plz_ort_source addr) m 2))
      | None \<Rightarrow>
          (case re_search pat addr of
             Some m2 \<Rightarrow> Some (strip (match_group addr m2 1), strip (match_group addr m2 2))
           | None \<Rightarrow> None))"

text \<open>
  \<open>extract_address_parts\<close>. The argument \<open>None\<close> is Python's \<open>None\<close> or the float
  NaN that pandas puts in an empty cell.
\<close>

definition extract_address_parts :: "string option \<Rightarrow> address_parts" where
  "extract_address_parts a =
     (case a of
        None \<Rightarrow> \<lparr>street = None, plz = None, ort = None\<rparr>
      | Some addr \<Rightarrow>
          \<lparr>street = (case address_segments addr of [] \<Rightarrow> None | p # _ \<Rightarrow> Some p),
           plz = map_option fst (plz_ort addr),
           ort = map_option snd (plz_ort addr)\<rparr>)"

text \<open>The street of the specification's wording: the first comma-segment, trimmed.\<close>

definition first_trimmed_segment :: "string \<Rightarrow> string" where
  "first_trimmed_segment addr = strip (hd (split_on (CHR '','') addr))"

definition hauptstrasse :: string where
  "hauptstrasse = ''Hauptstra'' @ [CHR 0xDF] @ ''e 1, 1010 Wien''"

section \<open>The post-processor (\<open>post_processing.py\<close>, \<open>main\<close>)\<close>

text \<open>
  The columns that the extractor's CSV and the clean CSV share. A cell that pandas reads
  as NaN, \<open>NA\<close> or \<open>NaT\<close> is \<open>None\<close>. The type parameter is the type of the date
  column: text as long as it is read from the CSV, a timestamp once it is parsed.
\<close>

record 'd game =
  Datum :: "'d option"
  Liga :: "string option"
  Typ :: "string option"
  Runde :: "string option"
  Heim :: "string option"
  Gast :: "string option"
  Spielort_Name :: "string option"
  Latitude :: "real option"
  Longitude :: "real option"
  Quelle :: "string option"

text \<open>A row of the extractor's output.\<close>

record 'd match_record = "'d game" +
  Heim_Link :: "string option"
  Gast_Link :: "string option"
  Adresse :: "string option"
  link :: "string option"
  error :: "string option"

text \<open>A row with \<open>wanted_cols\<close>: the shared columns and the three parsed ones.\<close>

record 'd clean_record = "'d game" +
  Strasse :: "string option"
  PLZ :: "string option"
  Ort :: "string option"

text \<open>A data frame: its rows in order, each with its index label.\<close>

type_synonym 'a frame = "(nat \<times> 'a) list"

type_synonym timestamp = int

definition read_csv :: "'a list \<Rightarrow> 'a frame" where
  "read_csv rows = zip [0 ..< length rows] rows"

text \<open>\<open>Series.replace\<close> with a one-entry dictionary: an exact match is replaced.\<close>

definition replace_value :: "string \<Rightarrow> string \<Rightarrow> string option \<Rightarrow> string option" where
  "replace_value old new v = (if v = Some old then Some new else v)"

definition bundesliga_long :: string where
  "bundesliga_long = [CHR 0xD6] @ ''sterreichische Fu'' @ [CHR 0xDF] @ ''ball-Bundesliga''"

definition maenner :: string where
  "maenner = ''M'' @ [CHR 0xE4] @ ''nner''"

definition normalize_labels :: "'d match_record \<Rightarrow> 'd match_record" where
  "normalize_labels r =
     r\<lparr>Liga := replace_value bundesliga_long ''ADMIRAL Bundesliga'' (Liga r),
       Typ := replace_value ''Frau'' ''Frauen'' (replace_value ''Mann'' maenner (Typ r))\<rparr>"

text \<open>\<open>str.lower\<close> on one character of the model's range.\<close>

definition lower_char :: "char \<Rightarrow> char" where
  "lower_char c =
     (if (65 \<le> cp c \<and> cp c \<le> 90) \<or> (192 \<le> cp c \<and> cp c \<le> 214) \<or> (216 \<le> cp c \<and> cp c \<le> 222)
      then char_of (cp c + 32) else c)"

definition lower :: "string \<Rightarrow> string" where
  "lower s = map lower_char s"

text \<open>
  \<open>Series.str.contains(p, case=False, na=False)\<close> on one cell, for a pattern of plain
  letters: a missing cell gives \<open>False\<close>, a string is searched ignoring case.
\<close>

definition str_contains_nocase :: "string \<Rightarrow> string option \<Rightarrow> bool" where
  "str_contains_nocase p v = (case v of None \<Rightarrow> False | Some s \<Rightarrow> contains (lower p) (lower s))"

text \<open>\<open>df_wien[wanted_cols]\<close> on a row of the frame after the address columns are added.\<close>

definition select_wanted :: "'d match_record \<times> address_parts \<Rightarrow> 'd clean_record" where
  "select_wanted rp =
     (case rp of (r, p) \<Rightarrow>
        \<lparr>Datum = Datum r, Liga = Liga r, Typ = Typ r, Runde = Runde r, Heim = Heim r, Gast = Gast r,
         Spielort_Name = Spielort_Name r, Latitude = Latitude r, Longitude = Longitude r,
         Quelle = Quelle r, Strasse = street p, PLZ = plz p, Ort = ort p\<rparr>)"

text \<open>
  \<open>pd.to_datetime(\<dots>, errors="coerce")\<close> on the date column. The parser of pandas is
  a parameter: it gives the timestamp of a text, or nothing when it cannot read it.
\<close>

definition parse_datum :: "(string \<Rightarrow> timestamp option) \<Rightarrow> string clean_record \<Rightarrow> timestamp clean_record" where
  "parse_datum to_datetime r =
     \<lparr>Datum = (case Datum r of None \<Rightarrow> None | Some s \<Rightarrow> to_datetime s),
      Liga = Liga r, Typ = Typ r, Runde = Runde r, Heim = Heim r, Gast = Gast r,
      Spielort_Name = Spielort_Name r, Latitude = Latitude r, Longitude = Longitude r,
      Quelle = Quelle r, Strasse = Strasse r, PLZ = PLZ r, Ort = Ort r\<rparr>"

text \<open>\<open>sort_values("Datum")\<close>: ascending, the rows without a date last.\<close>

definition sort_values :: "timestamp clean_record frame \<Rightarrow> timestamp clean_record frame" where
  "sort_values df =
     sort_key (\<lambda>ir. the (Datum (snd ir))) (filter (\<lambda>ir. Datum (snd ir) \<noteq> None) df)
     @ filter (\<lambda>ir. Datum (snd ir) = None) df"

definition gersthof_lat :: real where
  "gersthof_lat = 48.225324870552456"

definition gersthof_lon :: real where
  "gersthof_lon = 16.328420452719126"

text \<open>
  The correction: \<open>mask_gersthof = df_out["Heim"] == "Gersthofer SV"\<close>, and where the mask
  holds both coordinates are overwritten.
\<close>

definition mask_gersthof :: "'d clean_record \<Rightarrow> bool" where
  "mask_gersthof r = (Heim r = Some ''Gersthofer SV'')"

definition overwrite_masked :: "'d clean_record \<Rightarrow> 'd clean_record" where
  "overwrite_masked r =
     (if mask_gersthof r then r\<lparr>Latitude := Some gersthof_lat, Longitude := Some gersthof_lon\<rparr> else r)"

definition korrekturen :: "'d clean_record frame \<Rightarrow> 'd clean_record frame" where
  "korrekturen df =
     (if list_ex (\<lambda>ir. mask_gersthof (snd ir)) df
      then map (\<lambda>ir. (fst ir, overwrite_masked (snd ir))) df
      else df)"

text \<open>The frame after the address columns are added: \<open>pd.concat([df, address_parts], axis=1)\<close>.\<close>

definition with_address_parts :: "'d match_record frame \<Rightarrow> ('d match_record \<times> address_parts) frame" where
  "with_address_parts df = map (\<lambda>ir. (fst ir, (snd ir, extract_address_parts (Adresse (snd ir))))) df"

text \<open>\<open>df_wien\<close>: the rows whose parsed city contains "wien".\<close>

definition df_wien :: "('d match_record \<times> address_parts) frame \<Rightarrow> ('d match_record \<times> address_parts) frame" where
  "df_wien df = filter (\<lambda>ir. str_contains_nocase ''wien'' (ort (snd (snd ir)))) df"

text \<open>\<open>df_out\<close> as it is written to the clean CSV.\<close>

definition df_out :: "(string \<Rightarrow> timestamp option) \<Rightarrow> string match_record list \<Rightarrow> timestamp clean_record frame" where
  "df_out to_datetime rows =
     korrekturen
       (sort_values
          (map (\<lambda>ir. (fst ir, parse_datum to_datetime (select_wanted (snd ir))))
             (df_wien (with_address_parts (map (\<lambda>ir. (fst ir, normalize_labels (snd ir))) (read_csv rows))))))"

text \<open>\<open>df_nan\<close> as it is written to the fails CSV.\<close>

definition df_nan :: "(string \<Rightarrow> timestamp option) \<Rightarrow> string match_record list \<Rightarrow> timestamp clean_record frame" where
  "df_nan to_datetime rows =
     filter (\<lambda>ir. Latitude (snd ir) = None \<and> Longitude (snd ir) = None) (df_out to_datetime rows)"

text \<open>\<open>main\<close>: the clean frame and the fails frame.\<close>

definition main :: "(string \<Rightarrow> timestamp option) \<Rightarrow> string match_record list
    \<Rightarrow> timestamp clean_record frame \<times> timestamp clean_record frame" where
  "main to_datetime rows = (df_out to_datetime rows, df_nan to_datetime rows)"

text \<open>
  Five rows of an extractor output, to run the post-processor on: a match in Vienna with
  coordinates, a home match of Gersthofer SV without coordinates, a match outside
  Vienna, a match in Vienna without coordinates and one with a longitude only.
\<close>

definition example_row :: "string \<Rightarrow> string \<Rightarrow> real option \<Rightarrow> real option \<Rightarrow> string match_record" where
  "example_row heim adresse lat lon =
     \<lparr>Datum = Some ''2025-08-01 18:00:00'', Liga = Some ''Wiener Stadtliga'', Typ = Some ''Mann'',
      Runde = Some ''1'', Heim = Some heim, Gast = Some ''Gast'', Spielort_Name = Some ''Platz'',
      Latitude = lat, Longitude = lon, Quelle = Some ''https://www.oefb.at/x'',
      Heim_Link = None, Gast_Link = None, Adresse = Some adresse,
      link = Some ''https://www.oefb.at/x'', error = None\<rparr>"

definition example_rows :: "string match_record list" where
  "example_rows =
     [example_row ''Wiener Sport-Club'' ''Alszeile 19, 1170 Wien'' (Some 48.2) (Some 16.3),
      example_row ''Gersthofer SV'' ''Platz 1, 1180 Wien'' None None,
      example_row ''SC Musterdorf'' ''Sportplatzweg, 2345 Musterdorf'' None None,
      example_row ''FC Stadlau'' ''Platz 2, 1220 Wien'' None None,
      example_row ''SV Donau'' ''Platz 3, 1220 WIEN'' None (Some 16.4)]"

section \<open>The JSON emitter (\<open>create_martiball_json.py\<close>)\<close>

text \<open>
  What \<open>row.get(key)\<close> yields on a row that pandas has read from the clean CSV: a
  string, the float NaN of an empty cell, an integer, another float; and Python's
  \<open>None\<close>, here \<open>None\<close>, when the column is missing.
\<close>

datatype cell = NaN | Text string | Whole int | Floating real

type_synonym series = "string \<Rightarrow> cell option"

datatype json = JNull | JString string | JInt int | JFloat real

text \<open>
  The conversions of pandas and of Python's \<open>float\<close> that the emitter calls are
  parameters: the date parser with \<open>errors="coerce"\<close>, \<open>strftime\<close> with the emitter's
  format, \<open>str\<close> of a float that is not NaN, and \<open>float\<close> of a string (nothing when
  it raises or gives NaN).
\<close>

record conversions =
  pd_to_datetime :: "cell option \<Rightarrow> timestamp option"
  dt_strftime :: "timestamp \<Rightarrow> string"
  float_str :: "real \<Rightarrow> string"
  float_of_str :: "string \<Rightarrow> real option"

text \<open>\<open>str(n)\<close> for an integer.\<close>

function str_nat :: "nat \<Rightarrow> string" where
  "str_nat n = (if n < 10 then [char_of (48 + n)] else str_nat (n div 10) @ [char_of (48 + n mod 10)])"
  by pat_completeness auto
termination
  by (relation "measure (\<lambda>n. n)") auto

definition str_int :: "int \<Rightarrow> string" where
  "str_int i = (if i < 0 then CHR ''-'' # str_nat (nat (- i)) else str_nat (nat i))"

text \<open>
  \<open>int(s)\<close> for a string in base ten: an optional sign, then digits, with single
  underscores allowed between digits; anything else raises \<open>ValueError\<close>, here
  \<open>None\<close>. White space around the number is skipped.
\<close>

fun digits_value :: "nat \<Rightarrow> string \<Rightarrow> nat option" where
  "digits_value acc [] = Some acc"
| "digits_value acc (c # cs) =
     (if is_digit c then digits_value (10 * acc + (cp c - 48)) cs
      else if c = CHR ''_'' \<and> cs \<noteq> [] \<and> is_digit (hd cs) then digits_value acc cs
      else None)"

definition unsigned_value :: "string \<Rightarrow> nat option" where
  "unsigned_value s = (if s \<noteq> [] \<and> is_digit (hd s) then digits_value 0 s else None)"

definition py_int :: "string \<Rightarrow> int option" where
  "py_int s =
     (case strip s of
        [] \<Rightarrow> None
      | c # cs \<Rightarrow>
          (if c = CHR ''-'' then map_option (\<lambda>n. - int n) (unsigned_value cs)
           else if c = CHR ''+'' then map_option int (unsigned_value cs)
           else map_option int (unsigned_value (c # cs))))"

text \<open>The truth value of a cell: NaN is true, zero and the empty string are false.\<close>

definition truthy :: "cell option \<Rightarrow> bool" where
  "truthy v =
     (case v of
        None \<Rightarrow> False
      | Some NaN \<Rightarrow> True
      | Some (Text s) \<Rightarrow> s \<noteq> []
      | Some (Whole i) \<Rightarrow> i \<noteq> 0
      | Some (Floating x) \<Rightarrow> x \<noteq> 0)"

text \<open>\<open>v or ""\<close>\<close>

definition or_empty :: "cell option \<Rightarrow> cell option" where
  "or_empty v = (if truthy v then v else Some (Text []))"

text \<open>\<open>str(v)\<close>\<close>

definition py_str :: "conversions \<Rightarrow> cell option \<Rightarrow> string" where
  "py_str conv v =
     (case v of
        None \<Rightarrow> ''None''
      | Some NaN \<Rightarrow> ''nan''
      | Some (Text s) \<Rightarrow> s
      | Some (Whole i) \<Rightarrow> str_int i
      | Some (Floating x) \<Rightarrow> float_str conv x)"

definition isinstance_str :: "cell option \<Rightarrow> bool" where
  "isinstance_str v = (case v of Some (Text s) \<Rightarrow> True | _ \<Rightarrow> False)"

text \<open>
  The expression of every string field of \<open>build_record\<close>:
  \<open>(v or "") if isinstance(v, str) else str(v or "")\<close>.
\<close>

definition text_field :: "conversions \<Rightarrow> cell option \<Rightarrow> string" where
  "text_field conv v =
     (if isinstance_str v then (case or_empty v of Some (Text s) \<Rightarrow> s | _ \<Rightarrow> [])
      else py_str conv (or_empty v))"

text \<open>
  \<open>to_int_or_none\<close>: \<open>pd.isna(v)\<close> gives \<open>None\<close>; otherwise \<open>int(str(v).strip())\<close>,
  and \<open>None\<close> when that raises. The \<open>str\<close> of a float always has a point, an
  exponent or the name of an infinity, so \<open>int\<close> raises on it.
\<close>

definition to_int_or_none :: "cell option \<Rightarrow> int option" where
  "to_int_or_none v =
     (case v of
        None \<Rightarrow> None
      | Some NaN \<Rightarrow> None
      | Some (Text s) \<Rightarrow> py_int (strip s)
      | Some (Whole i) \<Rightarrow> Some i
      | Some (Floating x) \<Rightarrow> None)"

text \<open>\<open>to_float_or_none\<close>: \<open>float(v)\<close>, and \<open>None\<close> when it raises or is NaN.\<close>

definition to_float_or_none :: "conversions \<Rightarrow> cell option \<Rightarrow> real option" where
  "to_float_or_none conv v =
     (case v of
        None \<Rightarrow> None
      | Some NaN \<Rightarrow> None
      | Some (Text s) \<Rightarrow> float_of_str conv s
      | Some (Whole i) \<Rightarrow> Some (of_int i)
      | Some (Floating x) \<Rightarrow> Some x)"

definition json_of_string :: "string option \<Rightarrow> json" where
  "json_of_string v = (case v of None \<Rightarrow> JNull | Some s \<Rightarrow> JString s)"

definition json_of_int :: "int option \<Rightarrow> json" where
  "json_of_int v = (case v of None \<Rightarrow> JNull | Some i \<Rightarrow> JInt i)"

definition json_of_float :: "real option \<Rightarrow> json" where
  "json_of_float v = (case v of None \<Rightarrow> JNull | Some x \<Rightarrow> JFloat x)"

definition strasse_key :: string where
  "strasse_key = ''Stra'' @ [CHR 0xDF] @ ''e''"

text \<open>\<open>build_record\<close>: the dictionary of one match, its keys in the order of the source.\<close>

definition build_record :: "conversions \<Rightarrow> series \<Rightarrow> (string \<times> json) list" where
  "build_record conv row =
     [(''Spieldatum'', json_of_string (map_option (dt_strftime conv) (pd_to_datetime conv (row ''Datum'')))),
      (''Heimmannschaft'', JString (text_field conv (row ''Heim''))),
      (''Gastmannschaft'', JString (text_field conv (row ''Gast''))),
      (''Typ'', JString (text_field conv (row ''Typ''))),
      (''Liga'', JString (text_field conv (row ''Liga''))),
      (''Spielort'', JString (text_field conv (row ''Spielort_Name''))),
      (''Spielort '' @ strasse_key, JString (text_field conv (row strasse_key))),
      (''Spielort PLZ'', json_of_int (to_int_or_none (row ''PLZ''))),
      (''Spielort Ort'', JString (text_field conv (row ''Ort''))),
      (''Latitude'', json_of_float (to_float_or_none conv (row ''Latitude''))),
      (''Longitude'', json_of_float (to_float_or_none conv (row ''Longitude'')))]"

text \<open>
  A row of the clean CSV as pandas reads it when the venue name is empty: the cell of
  \<open>Spielort_Name\<close> is NaN. The postal code is given as the string "1190".
\<close>

definition venue_missing_row :: series where
  "venue_missing_row =
     [''Heim'' \<mapsto> Text ''Wiener Sport-Club'', ''Spielort_Name'' \<mapsto> NaN, ''PLZ'' \<mapsto> Text ''1190'']"

section \<open>The exceptions and the page data of the detail extractor (\<open>game_miner_parallel.py\<close>)\<close>

text \<open>
  The exceptions that can reach the code, each with its message (\<open>str(e)\<close>). The first
  three are subclasses of Selenium's \<open>WebDriverException\<close>; \<open>PyException\<close> is any other
  subclass of \<open>Exception\<close>.
\<close>

datatype exn =
    TimeoutException string
  | NoSuchElementException string
  | StaleElementReferenceException string
  | WebDriverException string
  | PyException string

fun message :: "exn \<Rightarrow> string" where
  "message (TimeoutException m) = m"
| "message (NoSuchElementException m) = m"
| "message (StaleElementReferenceException m) = m"
| "message (WebDriverException m) = m"
| "message (PyException m) = m"

fun is_webdriver_exception :: "exn \<Rightarrow> bool" where
  "is_webdriver_exception (PyException m) = False"
| "is_webdriver_exception e = True"

text \<open>
  A JavaScript value of the page, as far as the scripts look at it. \<open>JsObject\<close> lists
  the enumerable properties of an object in the order in which \<open>for \<dots> in\<close> visits
  them. \<open>JsNumber\<close> is a finite number; NaN and the two infinities are numbers too.
\<close>

datatype jsval =
    JsUndefined
  | JsNull
  | JsBool bool
  | JsNumber real
  | JsNaN
  | JsInfinity bool
  | JsString string
  | JsArray "jsval list"
  | JsObject "(string \<times> jsval) list"

text \<open>The truth value of a JavaScript value.\<close>

fun js_truthy :: "jsval \<Rightarrow> bool" where
  "js_truthy JsUndefined = False"
| "js_truthy JsNull = False"
| "js_truthy (JsBool b) = b"
| "js_truthy (JsNumber x) = (x \<noteq> 0)"
| "js_truthy JsNaN = False"
| "js_truthy (JsInfinity b) = True"
| "js_truthy (JsString s) = (s \<noteq> [])"
| "js_truthy (JsArray xs) = True"
| "js_truthy (JsObject kvs) = True"

text \<open>\<open>typeof v === 'number'\<close>\<close>

fun is_number :: "jsval \<Rightarrow> bool" where
  "is_number (JsNumber x) = True"
| "is_number JsNaN = True"
| "is_number (JsInfinity b) = True"
| "is_number v = False"

text \<open>
  \<open>v.name\<close> for a property that only an object of the page data can have; on a
  string, a number, a boolean or an array it is \<open>undefined\<close>.
\<close>

fun get_prop :: "jsval \<Rightarrow> string \<Rightarrow> jsval" where
  "get_prop (JsObject kvs) name = (case map_of kvs name of None \<Rightarrow> JsUndefined | Some v \<Rightarrow> v)"
| "get_prop v name = JsUndefined"

text \<open>\<open>v?.name\<close>\<close>

fun optional_chain :: "jsval \<Rightarrow> string \<Rightarrow> jsval" where
  "optional_chain JsUndefined name = JsUndefined"
| "optional_chain JsNull name = JsUndefined"
| "optional_chain v name = get_prop v name"

text \<open>The values \<open>ap[k]\<close> that \<open>for (const k in ap)\<close> visits, in order.\<close>

fun for_in_values :: "jsval \<Rightarrow> jsval list" where
  "for_in_values (JsObject kvs) = map (\<lambda>kv. get_prop (JsObject kvs) (fst kv)) kvs"
| "for_in_values (JsArray xs) = xs"
| "for_in_values (JsString s) = map (\<lambda>c. JsString [c]) s"
| "for_in_values v = []"

text \<open>\<open>Array.isArray(v) ? v : [v]\<close>\<close>

fun as_array :: "jsval \<Rightarrow> jsval list" where
  "as_array (JsArray xs) = xs"
| "as_array v = [v]"

text \<open>The objects that the two nested loops of a script visit, in order.\<close>

definition scanned_objects :: "jsval \<Rightarrow> jsval list" where
  "scanned_objects ap = concat (map as_array (for_in_values ap))"

text \<open>\<open>obj && typeof obj.longitude === 'number' && typeof obj.latitude === 'number'\<close>\<close>

definition has_lat_lon :: "jsval \<Rightarrow> bool" where
  "has_lat_lon obj =
     (js_truthy obj \<and> is_number (get_prop obj ''longitude'') \<and> is_number (get_prop obj ''latitude''))"

text \<open>\<open>obj.longitude === 0 && obj.latitude === 0\<close>\<close>

definition zero_lat_lon :: "jsval \<Rightarrow> bool" where
  "zero_lat_lon obj =
     (get_prop obj ''longitude'' = JsNumber 0 \<and> get_prop obj ''latitude'' = JsNumber 0)"

definition usable_coords :: "jsval \<Rightarrow> bool" where
  "usable_coords obj = (has_lat_lon obj \<and> \<not> zero_lat_lon obj)"

text \<open>\<open>window.SG?.container?.appPreloads\<close>, given the value of \<open>window.SG\<close>.\<close>

definition app_preloads :: "jsval \<Rightarrow> jsval" where
  "app_preloads sg = optional_chain (optional_chain sg ''container'') ''appPreloads''"

text \<open>The script that \<open>get_coordinates\<close> polls with.\<close>

definition coords_ready :: "jsval \<Rightarrow> bool" where
  "coords_ready sg =
     (if \<not> js_truthy (app_preloads sg) then False
      else list_ex usable_coords (scanned_objects (app_preloads sg)))"

text \<open>The script that reads the pair: \<open>[obj.latitude, obj.longitude]\<close>, or \<open>null\<close>.\<close>

definition read_coords :: "jsval \<Rightarrow> (jsval \<times> jsval) option" where
  "read_coords sg =
     (case find usable_coords
             (scanned_objects (if js_truthy (app_preloads sg) then app_preloads sg else JsObject [])) of
        None \<Rightarrow> None
      | Some obj \<Rightarrow> Some (get_prop obj ''latitude'', get_prop obj ''longitude''))"

text \<open>
  A number of the page as Python receives it from \<open>execute_script\<close>: a finite number as
  it is; NaN and the infinities have no JSON form and arrive as \<open>None\<close>.
\<close>

fun to_python :: "jsval \<Rightarrow> real option" where
  "to_python (JsNumber x) = Some x"
| "to_python v = None"

text \<open>
  \<open>WebDriverWait(driver, t).until(method)\<close>. The list holds what the polls inside the
  time limit observe, in order: a value of the page or an exception of
  \<open>execute_script\<close>. The wait returns at the first poll whose result is true, ignores a
  \<open>NoSuchElementException\<close>, lets any other exception through and raises
  \<open>TimeoutException\<close> when the polls are used up.
\<close>

fun wait_until :: "('s \<Rightarrow> bool) \<Rightarrow> (exn + 's) list \<Rightarrow> exn option" where
  "wait_until ready [] = Some (TimeoutException [])"
| "wait_until ready (Inr s # polls) = (if ready s then None else wait_until ready polls)"
| "wait_until ready (Inl (NoSuchElementException m) # polls) = wait_until ready polls"
| "wait_until ready (Inl e # polls) = Some e"

text \<open>
  \<open>get_coordinates\<close>. \<open>polls\<close> is what the wait of twenty seconds observes of
  \<open>window.SG\<close>, \<open>final\<close> what the reading script observes after it.
\<close>

definition get_coordinates :: "(exn + jsval) list \<Rightarrow> exn + jsval \<Rightarrow> real option \<times> real option" where
  "get_coordinates polls final =
     (case wait_until coords_ready polls of
        Some e \<Rightarrow> (None, None)
      | None \<Rightarrow>
          (case final of
             Inl e \<Rightarrow> (None, None)
           | Inr sg \<Rightarrow>
               (case read_coords sg of
                  None \<Rightarrow> (None, None)
                | Some (lat, lon) \<Rightarrow> (to_python lat, to_python lon))))"

text \<open>The page data with one entry: a list holding one object with the given pair.\<close>

definition page_with_coords :: "real \<Rightarrow> real \<Rightarrow> jsval" where
  "page_with_coords lat lon =
     JsObject [(''container'', JsObject [(''appPreloads'',
       JsObject [(''venue'', JsArray [JsObject [(''latitude'', JsNumber lat), (''longitude'', JsNumber lon)]])])])]"

section \<open>The extraction of one detail page (\<open>mine_game\<close>)\<close>

text \<open>\<open>s.replace(old, new)\<close>, every occurrence, for a non-empty \<open>old\<close>.\<close>

function replace_all :: "string \<Rightarrow> string \<Rightarrow> string \<Rightarrow> string" where
  "replace_all old new [] = []"
| "replace_all old new (c # cs) =
     (if old \<noteq> [] \<and> prefix old (c # cs) then new @ replace_all old new (drop (length old) (c # cs))
      else c # replace_all old new cs)"
  by pat_completeness auto
termination
  by (relation "measure (\<lambda>(old, new, s). length s)") auto

text \<open>\<open>normalize_link\<close>, and the \<open>link\<close> entry of a row.\<close>

definition normalize_link :: "string \<Rightarrow> string" where
  "normalize_link u = replace_all ''/Spielbericht/'' ''/'' u"

text \<open>\<open>sep.join(parts)\<close>\<close>

fun join :: "string \<Rightarrow> string list \<Rightarrow> string" where
  "join sep [] = []"
| "join sep [p] = p"
| "join sep (p # q # ps) = p @ sep @ join sep (q # ps)"

text \<open>The characters at which \<open>str.splitlines\<close> ends a line.\<close>

definition is_linebreak :: "char \<Rightarrow> bool" where
  "is_linebreak c = ((10 \<le> cp c \<and> cp c \<le> 13) \<or> (28 \<le> cp c \<and> cp c \<le> 30) \<or> cp c = 133)"

fun split_where :: "(char \<Rightarrow> bool) \<Rightarrow> string \<Rightarrow> string list" where
  "split_where P [] = [[]]"
| "split_where P (c # cs) =
     (if P c then [] # split_where P cs
      else (case split_where P cs of [] \<Rightarrow> [[c]] | p # ps \<Rightarrow> (c # p) # ps))"

text \<open>\<open>[ln.strip() for ln in text.splitlines() if ln.strip()]\<close>\<close>

definition stripped_lines :: "string \<Rightarrow> string list" where
  "stripped_lines s = filter (\<lambda>ln. ln \<noteq> []) (map strip (split_where is_linebreak s))"

text \<open>
  What the browser session of one link shows, call by call. A call of Selenium either
  gives its value or raises: \<open>Inl\<close> is the exception, and for a call without a value
  \<open>Some\<close> is. An anchor is one of the team links.
\<close>

record anchor =
  title_attr :: "exn + string option"
  anchor_text :: "exn + string"
  href_attr :: "exn + string option"

record place_block =
  h4_text :: "exn + string"
  h5_text :: "exn + string"
  block_text :: "exn + string"

record session =
  open_driver :: "exn option"
  driver_get :: "nat \<Rightarrow> exn option"
  container_wait :: "exn option"
  round_text :: "exn + string"
  date_text :: "exn + string"
  team_links :: "exn + anchor list"
  team_links_wait :: "exn option"
  team_links_again :: "exn + anchor list"
  bewerb_polls :: "(exn + jsval) list"
  bewerb_final :: "exn + jsval"
  spielbeginn_text :: "exn + string"
  place_blocks :: "exn + place_block list"
  coord_polls :: "(exn + jsval) list"
  coord_final :: "exn + jsval"

text \<open>
  \<open>safe_get\<close>: up to \<open>attempts\<close> calls of \<open>driver.get\<close>; a Selenium exception is
  retried and raised again after the last attempt, any other exception is raised at once.
\<close>

fun safe_get_loop :: "(nat \<Rightarrow> exn option) \<Rightarrow> nat \<Rightarrow> nat list \<Rightarrow> exn option" where
  "safe_get_loop get attempts [] = None"
| "safe_get_loop get attempts (i # rest) =
     (case get i of
        None \<Rightarrow> None
      | Some e \<Rightarrow>
          (if is_webdriver_exception e
           then (if i = attempts then Some e else safe_get_loop get attempts rest)
           else Some e))"

definition safe_get :: "(nat \<Rightarrow> exn option) \<Rightarrow> nat \<Rightarrow> exn option" where
  "safe_get get attempts = safe_get_loop get attempts [1 ..< attempts + 1]"

text \<open>\<open>a.get_attribute(name) or alternative\<close>\<close>

definition attr_or :: "string option \<Rightarrow> string \<Rightarrow> string" where
  "attr_or v alternative = (case v of None \<Rightarrow> alternative | Some s \<Rightarrow> if s \<noteq> [] then s else alternative)"

text \<open>\<open>a.get_attribute("title") or get_text_safe(a)\<close>: the text is read only if needed.\<close>

definition team_name :: "anchor \<Rightarrow> exn + string" where
  "team_name a =
     (case title_attr a of
        Inl e \<Rightarrow> Inl e
      | Inr v \<Rightarrow>
          (if attr_or v [] \<noteq> [] then Inr (attr_or v [])
           else (case anchor_text a of Inl e \<Rightarrow> Inl e | Inr t \<Rightarrow> Inr (strip t))))"

definition team_href :: "anchor \<Rightarrow> exn + string" where
  "team_href a = (case href_attr a of Inl e \<Rightarrow> Inl e | Inr v \<Rightarrow> Inr (attr_or v []))"

text \<open>
  The team links: read once, and if there are fewer than two, waited for and read again.
  \<open>team_links[0], team_links[1]\<close> raises \<open>IndexError\<close> on a list that is too short.
\<close>

definition first_two :: "anchor list \<Rightarrow> exn + anchor \<times> anchor" where
  "first_two links =
     (case links of
        a # b # _ \<Rightarrow> Inr (a, b)
      | _ \<Rightarrow> Inl (PyException ''list index out of range''))"

definition read_team_links :: "session \<Rightarrow> exn + anchor \<times> anchor" where
  "read_team_links s =
     (case team_links s of
        Inl e \<Rightarrow> Inl e
      | Inr links \<Rightarrow>
          (if length links < 2
           then (case team_links_wait s of
                   Some e \<Rightarrow> Inl e
                 | None \<Rightarrow> (case team_links_again s of Inl e \<Rightarrow> Inl e | Inr again \<Rightarrow> first_two again))
           else first_two links))"

text \<open>
  \<open>get_bewerb\<close>. The wait polls \<open>!!(window.SG && SG.container && SG.container.appPreloads)\<close>;
  the reading script then returns the first \<open>obj.bewerb\<close> that is a string with more
  than white space in it, or \<open>null\<close>, and throws when \<open>window.SG.container\<close> cannot
  be read any more. Nothing is caught inside.
\<close>

definition bewerb_ready :: "jsval \<Rightarrow> bool" where
  "bewerb_ready sg =
     (js_truthy sg \<and> js_truthy (get_prop sg ''container'')
      \<and> js_truthy (get_prop (get_prop sg ''container'') ''appPreloads''))"

text \<open>The white space that \<open>String.prototype.trim\<close> removes, below U+0100.\<close>

definition js_space :: "char \<Rightarrow> bool" where
  "js_space c = ((9 \<le> cp c \<and> cp c \<le> 13) \<or> cp c = 32 \<or> cp c = 160)"

definition has_bewerb :: "jsval \<Rightarrow> bool" where
  "has_bewerb obj =
     (js_truthy obj
      \<and> (case get_prop obj ''bewerb'' of JsString b \<Rightarrow> \<not> list_all js_space b | _ \<Rightarrow> False))"

definition nullish :: "jsval \<Rightarrow> bool" where
  "nullish v = (v = JsUndefined \<or> v = JsNull)"

definition read_bewerb :: "jsval \<Rightarrow> exn + string option" where
  "read_bewerb sg =
     (if nullish sg \<or> nullish (get_prop sg ''container'')
      then Inl (WebDriverException ''javascript error'')
      else (case find has_bewerb
                   (scanned_objects
                      (if js_truthy (get_prop (get_prop sg ''container'') ''appPreloads'')
                       then get_prop (get_prop sg ''container'') ''appPreloads'' else JsObject [])) of
              None \<Rightarrow> Inr None
            | Some obj \<Rightarrow> (case get_prop obj ''bewerb'' of JsString b \<Rightarrow> Inr (Some b) | _ \<Rightarrow> Inr None)))"

definition get_bewerb :: "(exn + jsval) list \<Rightarrow> exn + jsval \<Rightarrow> exn + string option" where
  "get_bewerb polls final =
     (case wait_until bewerb_ready polls of
        Some e \<Rightarrow> Inl e
      | None \<Rightarrow> (case final of Inl e \<Rightarrow> Inl e | Inr sg \<Rightarrow> read_bewerb sg))"

text \<open>\<open>value_after\<close>: the text of the element after the label, or "" on any exception.\<close>

definition value_after :: "exn + string \<Rightarrow> string" where
  "value_after found = (case found of Inl e \<Rightarrow> [] | Inr t \<Rightarrow> strip t)"

text \<open>
  The address lines of the block that was found: a first line that starts with "adresse"
  and then a first line that repeats the venue name are dropped.
\<close>

definition address_lines :: "string \<Rightarrow> string \<Rightarrow> string list" where
  "address_lines spielort_name block =
     (let lines = stripped_lines block;
          lines' = (if lines \<noteq> [] \<and> prefix ''adresse'' (lower (hd lines)) then tl lines else lines)
      in if lines' \<noteq> [] \<and> spielort_name \<noteq> [] \<and> hd lines' = spielort_name then tl lines' else lines')"

text \<open>
  The loop over the place blocks, inside its \<open>try\<close>: the result is the pair
  \<open>(spielort_name, adresse)\<close>. A block whose heading cannot be read is skipped; the
  first block whose heading has "adresse" and "anfahrt" ends the loop. If its text
  cannot be read, the exception leaves the loop with the venue name already set.
\<close>

fun scan_place_blocks :: "place_block list \<Rightarrow> string \<times> string" where
  "scan_place_blocks [] = ([], [])"
| "scan_place_blocks (blk # blks) =
     (case h4_text blk of
        Inl e \<Rightarrow> scan_place_blocks blks
      | Inr t \<Rightarrow>
          (if contains ''adresse'' (lower (strip t)) \<and> contains ''anfahrt'' (lower (strip t))
           then (let spielort_name = (case h5_text blk of Inl e \<Rightarrow> [] | Inr n \<Rightarrow> strip n)
                 in (case block_text blk of
                       Inl e \<Rightarrow> (spielort_name, [])
                     | Inr b \<Rightarrow> (spielort_name, join '', '' (address_lines spielort_name b))))
           else scan_place_blocks blks))"

definition spielort_and_adresse :: "session \<Rightarrow> string \<times> string" where
  "spielort_and_adresse s = (case place_blocks s of Inl e \<Rightarrow> ([], []) | Inr blks \<Rightarrow> scan_place_blocks blks)"

text \<open>
  The body of the \<open>try\<close> of \<open>mine_game\<close>, from \<open>safe_get\<close> to \<open>return row\<close>. The
  parser of pandas for "day.month.year hour:minute" with \<open>errors="coerce"\<close> is a
  parameter.
\<close>

definition extract_row :: "(string \<Rightarrow> timestamp option) \<Rightarrow> session \<Rightarrow> string \<Rightarrow> exn + timestamp match_record" where
  "extract_row to_datetime s weblink =
     (case safe_get (driver_get s) 3 of Some e \<Rightarrow> Inl e | None \<Rightarrow>
      (case container_wait s of Some e \<Rightarrow> Inl e | None \<Rightarrow>
      (case round_text s of Inl e \<Rightarrow> Inl e | Inr runde \<Rightarrow>
      (case date_text s of Inl e \<Rightarrow> Inl e | Inr datum \<Rightarrow>
      (case read_team_links s of Inl e \<Rightarrow> Inl e | Inr (heim_a, gast_a) \<Rightarrow>
      (case team_name heim_a of Inl e \<Rightarrow> Inl e | Inr heim_name \<Rightarrow>
      (case team_name gast_a of Inl e \<Rightarrow> Inl e | Inr gast_name \<Rightarrow>
      (case team_href heim_a of Inl e \<Rightarrow> Inl e | Inr heim_link \<Rightarrow>
      (case team_href gast_a of Inl e \<Rightarrow> Inl e | Inr gast_link \<Rightarrow>
      (case get_bewerb (bewerb_polls s) (bewerb_final s) of Inl e \<Rightarrow> Inl e | Inr bewerb \<Rightarrow>
        (let liga = attr_or bewerb [];
             spielbeginn = value_after (spielbeginn_text s);
             place = spielort_and_adresse s;
             coords = get_coordinates (coord_polls s) (coord_final s)
         in Inr \<lparr>Datum = to_datetime (strip (strip datum @ '' '' @ spielbeginn)),
                 Liga = Some liga,
                 Typ = Some (if contains ''Frau'' liga then ''Frau'' else ''Mann''),
                 Runde = Some (strip runde),
                 Heim = Some heim_name,
                 Gast = Some gast_name,
                 Spielort_Name = Some (fst place),
                 Latitude = fst coords,
                 Longitude = snd coords,
                 Quelle = Some weblink,
                 Heim_Link = Some heim_link,
                 Gast_Link = Some gast_link,
                 Adresse = Some (snd place),
                 link = Some (normalize_link weblink),
                 error = None\<rparr>)))))))))))"

text \<open>The dictionary that the \<open>except\<close> branch of \<open>mine_game\<close> returns.\<close>

definition error_row :: "string \<Rightarrow> exn \<Rightarrow> timestamp match_record" where
  "error_row weblink e =
     \<lparr>Datum = None, Liga = None, Typ = None, Runde = None, Heim = None, Gast = None,
      Spielort_Name = None, Latitude = None, Longitude = None, Quelle = Some weblink,
      Heim_Link = None, Gast_Link = None, Adresse = None,
      link = Some (normalize_link weblink), error = Some (message e)\<rparr>"

text \<open>
  \<open>mine_game\<close>. \<open>open_driver\<close> is called before the \<open>try\<close>, so its exception leaves
  the function; \<open>driver.quit()\<close> in the \<open>finally\<close> is suppressed and changes nothing.
\<close>

definition mine_game :: "(string \<Rightarrow> timestamp option) \<Rightarrow> session \<Rightarrow> string \<Rightarrow> exn + timestamp match_record" where
  "mine_game to_datetime s weblink =
     (case open_driver s of
        Some e \<Rightarrow> Inl e
      | None \<Rightarrow>
          (case extract_row to_datetime s weblink of
             Inl e \<Rightarrow> Inr (error_row weblink e)
           | Inr row \<Rightarrow> Inr row))"

section \<open>The controller of the detail extractor (\<open>run_parallel\<close>)\<close>

text \<open>\<open>load_links\<close>: the \<open>href\<close> column of the input CSV, normalised.\<close>

definition load_links :: "string list \<Rightarrow> string list" where
  "load_links hrefs = map normalize_link hrefs"

text \<open>The row that the controller makes when a future raises: three keys only.\<close>

definition future_exception_row :: "string \<Rightarrow> exn \<Rightarrow> timestamp match_record" where
  "future_exception_row l e =
     \<lparr>Datum = None, Liga = None, Typ = None, Runde = None, Heim = None, Gast = None,
      Spielort_Name = None, Latitude = None, Longitude = None, Quelle = Some l,
      Heim_Link = None, Gast_Link = None, Adresse = None,
      link = Some l, error = Some (''FutureException: '' @ message e)\<rparr>"

text \<open>\<open>str\<close> of a cell of the \<open>link\<close> column; an empty cell reads "nan".\<close>

definition link_str :: "'d match_record \<Rightarrow> string" where
  "link_str r = (case link r of None \<Rightarrow> ''nan'' | Some l \<Rightarrow> l)"

text \<open>
  The state of the controller's loop: the rows in memory, the links done, the rows
  since the last flush, and the rows of the output file (\<open>None\<close>: no file).
\<close>

record run_state =
  results :: "timestamp match_record list"
  have_set :: "string set"
  completed_since_flush :: nat
  out_csv :: "timestamp match_record list option"

text \<open>
  One turn of the loop over the completed futures: \<open>fut.result()\<close> inside its
  \<open>try\<close>, the append, and the flush when enough rows have come in.
\<close>

definition complete_one :: "(string \<Rightarrow> timestamp option) \<Rightarrow> (string \<Rightarrow> session) \<Rightarrow> nat
    \<Rightarrow> string \<Rightarrow> run_state \<Rightarrow> run_state" where
  "complete_one to_datetime sessions flush_every l st =
     (let row = (case mine_game to_datetime (sessions l) l of
                   Inl e \<Rightarrow> future_exception_row l e
                 | Inr r \<Rightarrow> r);
          rows = results st @ [row];
          n = completed_since_flush st + 1
      in \<lparr>results = rows,
          have_set = insert (case link row of None \<Rightarrow> l | Some k \<Rightarrow> k) (have_set st),
          completed_since_flush = (if flush_every \<le> n then 0 else n),
          out_csv = (if flush_every \<le> n then Some rows else out_csv st)\<rparr>)"

text \<open>
  \<open>run_parallel\<close>. \<open>sessions\<close> gives the browser session of each link,
  \<open>as_completed\<close> the order in which the futures of the work list complete, and
  \<open>existing\<close> the rows of the output file of an earlier run. The result is the state
  after the final write.
\<close>

definition run_parallel :: "(string \<Rightarrow> timestamp option) \<Rightarrow> (string \<Rightarrow> session)
    \<Rightarrow> (string list \<Rightarrow> string list) \<Rightarrow> string list \<Rightarrow> timestamp match_record list option
    \<Rightarrow> nat \<Rightarrow> run_state" where
  "run_parallel to_datetime sessions as_completed hrefs existing flush_every =
     (let links_all = load_links hrefs;
          start = \<lparr>results = (case existing of None \<Rightarrow> [] | Some rows \<Rightarrow> rows),
                   have_set = (case existing of None \<Rightarrow> {} | Some rows \<Rightarrow> set (map link_str rows)),
                   completed_since_flush = 0,
                   out_csv = existing\<rparr>;
          todo = filter (\<lambda>l. l \<notin> have_set start) links_all
      in if todo = []
         then (if existing = None then start\<lparr>out_csv := Some (results start)\<rparr> else start)
         else (let done = fold (complete_one to_datetime sessions flush_every) (as_completed todo) start
               in done\<lparr>out_csv := Some (results done)\<rparr>))"

text \<open>
  A session in which every call succeeds and the page shows the pair it is given, and
  two sessions that fail: one whose navigation times out three times, one whose browser
  does not start.
\<close>

definition team_anchor :: "string \<Rightarrow> anchor" where
  "team_anchor name = \<lparr>title_attr = Inr (Some name), anchor_text = Inr name, href_attr = Inr None\<rparr>"

definition good_session :: "real \<Rightarrow> real \<Rightarrow> session" where
  "good_session lat lon =
     \<lparr>open_driver = None,
      driver_get = (\<lambda>i. None),
      container_wait = None,
      round_text = Inr ''Runde 1'',
      date_text = Inr ''01.08.2025'',
      team_links = Inr [team_anchor ''Heim'', team_anchor ''Gast''],
      team_links_wait = None,
      team_links_again = Inr [],
      bewerb_polls = [Inr (page_with_coords lat lon)],
      bewerb_final = Inr (page_with_coords lat lon),
      spielbeginn_text = Inr ''18:00'',
      place_blocks = Inr [],
      coord_polls = [Inr (page_with_coords lat lon)],
      coord_final = Inr (page_with_coords lat lon)\<rparr>"

definition unreachable_session :: session where
  "unreachable_session = (good_session 48 16)\<lparr>driver_get := (\<lambda>i. Some (TimeoutException ''timeout''))\<rparr>"

definition no_browser_session :: session where
  "no_browser_session = (good_session 48 16)\<lparr>open_driver := Some (WebDriverException ''no chrome'')\<rparr>"

section \<open>The link crawler (\<open>fminer.py\<close>)\<close>

text \<open>
  A link element of the schedule table as the browser shows it: what
  \<open>el.get_attribute("href")\<close> and \<open>el.text\<close> give, or the exception they raise.
\<close>

record link_element =
  href_attribute :: "exn + string option"
  element_text :: "exn + string option"

text \<open>A collected item: \<open>(text, href, source_url, now_iso)\<close>.\<close>

type_synonym item = "string \<times> string \<times> string \<times> string"

text \<open>
  The loop of \<open>collect_links_from_page\<close> over the elements, with \<open>seen_local\<close> and
  \<open>out\<close>. An exception of an element ends the function; nothing is returned then.
\<close>

fun collect_loop :: "string \<Rightarrow> string \<Rightarrow> link_element list \<Rightarrow> string set \<Rightarrow> item list \<Rightarrow> exn + item list" where
  "collect_loop source_url now_iso [] seen_local out = Inr out"
| "collect_loop source_url now_iso (el # els) seen_local out =
     (case href_attribute el of
        Inl e \<Rightarrow> Inl e
      | Inr h \<Rightarrow>
          (case element_text el of
             Inl e \<Rightarrow> Inl e
           | Inr t \<Rightarrow>
               (if normalize_link (attr_or h []) = [] \<or> normalize_link (attr_or h []) \<in> seen_local
                then collect_loop source_url now_iso els seen_local out
                else if contains ''verein'' (lower (normalize_link (attr_or h [])))
                then collect_loop source_url now_iso els seen_local out
                else if \<not> contains ''oefb.at'' (normalize_link (attr_or h []))
                then collect_loop source_url now_iso els seen_local out
                else collect_loop source_url now_iso els
                       (insert (normalize_link (attr_or h [])) seen_local)
                       (out @ [(strip (attr_or t []), normalize_link (attr_or h []), source_url, now_iso)]))))"

text \<open>\<open>collect_links_from_page\<close>: \<open>find_elements\<close>, then the loop.\<close>

definition collect_links_from_page :: "exn + link_element list \<Rightarrow> string \<Rightarrow> string \<Rightarrow> exn + item list" where
  "collect_links_from_page found source_url now_iso =
     (case found of Inl e \<Rightarrow> Inl e | Inr els \<Rightarrow> collect_loop source_url now_iso els {} [])"

text \<open>A data row of the output CSV.\<close>

record csv_row =
  href :: string
  source_url :: string
  first_seen_utc :: string

text \<open>
  \<open>load_existing_hrefs\<close>: no file gives the empty set, a file that cannot be read gives
  the empty set, and a file that can be read gives the hrefs of its rows, stripped, the
  empty ones left out.
\<close>

definition load_existing_hrefs :: "bool \<Rightarrow> csv_row list option \<Rightarrow> string set" where
  "load_existing_hrefs readable file =
     (case file of
        None \<Rightarrow> {}
      | Some rows \<Rightarrow>
          (if readable then set (filter (\<lambda>h. h \<noteq> []) (map (\<lambda>r. strip (href r)) rows)) else {}))"

text \<open>The seen-set and the data rows of the output file, which is open for appending.\<close>

record crawl_state =
  seen :: "string set"
  csv_rows :: "csv_row list"

text \<open>
  The loop \<open>for text, href, src, ts in items\<close> of \<open>stream_links_from_url\<close>: an href
  that is not in the seen-set is added to it and its row is appended at once.
\<close>

fun append_new :: "item list \<Rightarrow> crawl_state \<Rightarrow> crawl_state" where
  "append_new [] st = st"
| "append_new ((text, h, src, ts) # items) st =
     append_new items
       (if h \<notin> seen st
        then \<lparr>seen = insert h (seen st),
              csv_rows = csv_rows st @ [\<lparr>href = h, source_url = src, first_seen_utc = ts\<rparr>]\<rparr>
        else st)"

text \<open>
  One turn of the loop of \<open>click_more_until_stable\<close>: the button was found and
  clicked, or the wait for it or the click raised.
\<close>

datatype click_outcome = Clicked | ClickRaises exn

text \<open>
  \<open>click_more_until_stable\<close>, run on the outcomes of its turns in order; the result
  is the number of clicks made. A \<open>TimeoutException\<close> ends the loop, a
  \<open>StaleElementReferenceException\<close> repeats the turn without counting, any other
  exception leaves the function. The loop may not end: \<open>None\<close> says that the outcomes
  given were used up before it did.
\<close>

fun click_loop :: "nat \<Rightarrow> click_outcome list \<Rightarrow> nat \<Rightarrow> (exn + nat) option" where
  "click_loop max_clicks outcomes clicks =
     (if max_clicks \<le> clicks then Some (Inr clicks)
      else (case outcomes of
              [] \<Rightarrow> None
            | Clicked # rest \<Rightarrow> click_loop max_clicks rest (clicks + 1)
            | ClickRaises (TimeoutException m) # rest \<Rightarrow> Some (Inr clicks)
            | ClickRaises (StaleElementReferenceException m) # rest \<Rightarrow> click_loop max_clicks rest clicks
            | ClickRaises e # rest \<Rightarrow> Some (Inl e)))"

definition click_more_until_stable :: "click_outcome list \<Rightarrow> (exn + nat) option" where
  "click_more_until_stable outcomes = click_loop 10000 outcomes 0"

text \<open>
  What one listing URL shows: the outcomes of the navigation attempts and of the wait
  for the schedule table, the link elements that are on the page after a given number
  of clicks, the outcomes of the turns of the click loop, and the clock at the two
  collections.
\<close>

record listing =
  navigation :: "nat \<Rightarrow> exn option"
  table_wait :: "exn option"
  elements_after :: "nat \<Rightarrow> exn + link_element list"
  click_outcomes :: "click_outcome list"
  now_first :: string
  now_second :: string

text \<open>How a call ends: it returns, it raises, or its click loop is still running.\<close>

datatype ending = Returned | Failed exn | StillClicking

text \<open>
  \<open>stream_links_from_url\<close>. The rows appended before an exception stay in the file.
\<close>

definition stream_links_from_url :: "listing \<Rightarrow> string \<Rightarrow> crawl_state \<Rightarrow> crawl_state \<times> ending" where
  "stream_links_from_url page url st =
     (case safe_get (navigation page) 3 of Some e \<Rightarrow> (st, Failed e) | None \<Rightarrow>
      (case table_wait page of Some e \<Rightarrow> (st, Failed e) | None \<Rightarrow>
      (case collect_links_from_page (elements_after page 0) url (now_first page) of
         Inl e \<Rightarrow> (st, Failed e)
       | Inr items \<Rightarrow>
           (case click_more_until_stable (click_outcomes page) of
              None \<Rightarrow> (append_new items st, StillClicking)
            | Some (Inl e) \<Rightarrow> (append_new items st, Failed e)
            | Some (Inr n) \<Rightarrow>
                (case collect_links_from_page (elements_after page n) url (now_second page) of
                   Inl e \<Rightarrow> (append_new items st, Failed e)
                 | Inr items2 \<Rightarrow> (append_new items2 (append_new items st), Returned))))))"

text \<open>
  The loop of \<open>scrape_multiple_urls_streaming\<close>: an exception of one URL is logged and
  the next URL is taken.
\<close>

fun scrape_urls :: "(string \<Rightarrow> listing) \<Rightarrow> string list \<Rightarrow> crawl_state \<Rightarrow> crawl_state \<times> ending" where
  "scrape_urls pages [] st = (st, Returned)"
| "scrape_urls pages (url # urls) st =
     (case stream_links_from_url (pages url) url st of
        (st', StillClicking) \<Rightarrow> (st', StillClicking)
      | (st', _) \<Rightarrow> scrape_urls pages urls st')"

text \<open>
  The crawler from its entry point. With \<open>fresh\<close> the output file is removed and
  nothing is seen; otherwise the seen-set is loaded from the file, to which the run
  appends.
\<close>

definition crawl :: "bool \<Rightarrow> bool \<Rightarrow> (string \<Rightarrow> listing) \<Rightarrow> string list \<Rightarrow> csv_row list option
    \<Rightarrow> crawl_state \<times> ending" where
  "crawl fresh readable pages urls file =
     scrape_urls pages urls
       \<lparr>seen = (if fresh then {} else load_existing_hrefs readable file),
        csv_rows = (if fresh then [] else (case file of None \<Rightarrow> [] | Some rows \<Rightarrow> rows))\<rparr>"

text \<open>
  A link element with the given href, and a listing that shows the given elements after
  zero, one and two or more clicks and whose button is there twice.
\<close>

definition link_to :: "string \<Rightarrow> link_element" where
  "link_to h = \<lparr>href_attribute = Inr (Some h), element_text = Inr (Some ''Spiel'')\<rparr>"

definition three_page_listing :: "link_element list \<Rightarrow> link_element list \<Rightarrow> link_element list \<Rightarrow> listing" where
  "three_page_listing first second third =
     \<lparr>navigation = (\<lambda>i. None),
      table_wait = None,
      elements_after = (\<lambda>n. Inr (if n = 0 then first else if n = 1 then second else third)),
      click_outcomes = [Clicked, Clicked, ClickRaises (TimeoutException [])],
      now_first = ''2025-08-01T10:00:00Z'',
      now_second = ''2025-08-01T10:00:05Z''\<rparr>"

text \<open>
  The procedure of the specification's wording for one URL: the links are collected and
  appended again after each single click.
\<close>

fun collect_after_each_click :: "listing \<Rightarrow> string \<Rightarrow> nat list \<Rightarrow> crawl_state \<Rightarrow> crawl_state" where
  "collect_after_each_click page url [] st = st"
| "collect_after_each_click page url (n # ns) st =
     (case collect_links_from_page (elements_after page n) url (now_second page) of
        Inl e \<Rightarrow> st
      | Inr items \<Rightarrow> collect_after_each_click page url ns (append_new items st))"

text \<open>
  The invariant of a run whose file started as \<open>old\<close> and whose seen-set started as
  \<open>seen0\<close>: the file is \<open>old\<close> followed by rows with pairwise different, non-empty
  hrefs, which are in the seen-set now and were not in it at the start.
\<close>

definition extends_file :: "csv_row list \<Rightarrow> string set \<Rightarrow> crawl_state \<Rightarrow> bool" where
  "extends_file old seen0 st =
     (\<exists>new. csv_rows st = old @ new \<and> distinct (map href new) \<and> set (map href new) \<subseteq> seen st
        \<and> seen0 \<subseteq> seen st \<and> set (map href new) \<inter> seen0 = {} \<and> [] \<notin> set (map href new))"

fun is_stale :: "click_outcome \<Rightarrow> bool" where
  "is_stale (ClickRaises (StaleElementReferenceException m)) = True"
| "is_stale outcome = False"

text \<open>
  Example pages: a listing that shows one link and no button; a listing that shows the
  link a, after one click the link b instead, and after two clicks the link c; and a
  stored row for the link a.
\<close>

definition one_link_listing :: "string \<Rightarrow> listing" where
  "one_link_listing h =
     (three_page_listing [link_to h] [link_to h] [link_to h])
       \<lparr>click_outcomes := [ClickRaises (TimeoutException [])]\<rparr>"

definition abc_listing :: listing where
  "abc_listing =
     three_page_listing [link_to ''https://www.oefb.at/a''] [link_to ''https://www.oefb.at/b'']
       [link_to ''https://www.oefb.at/c'']"

definition stored_a :: csv_row where
  "stored_a = \<lparr>href = ''https://www.oefb.at/a'', source_url = ''u'', first_seen_utc = ''2025-07-31T10:00:00Z''\<rparr>"

definition empty_state :: crawl_state where
  "empty_state = \<lparr>seen = {}, csv_rows = []\<rparr>"

section \<open>Properties of the address parser\<close>

lemma strip_subset: "set (strip s) \<subseteq> set s"
  by (auto simp: strip_def dest!: set_dropWhileD)

lemma strip_no_space:
  assumes "\<forall>c \<in> set s. \<not> is_space c"
  shows "strip s = s"
proof -
  have 1: "dropWhile is_space s = s"
    using assms by (cases s) auto
  have 2: "dropWhile is_space (rev s) = rev s"
    using assms by (cases "rev s") (auto simp: dropWhile_eq_self_iff hd_rev last_in_set)
  show ?thesis by (simp add: strip_def 1 2)
qed

lemma run_length_chars:
  assumes "0 < n" and "n \<le> run_length P hi s i"
  shows "i + n \<le> length s \<and> (\<forall>k<n. P (s ! (i + k)))"
proof -
  let ?t = "takeWhile P (drop i s)"
  have le: "n \<le> length ?t"
    using assms(2) by (auto simp: run_length_def Let_def split: option.splits)
  have "length ?t \<le> length s - i"
    using length_takeWhile_le [of P "drop i s"] by simp
  with le assms(1) have bound: "i + n \<le> length s" by arith
  have "P (s ! (i + k))" if "k < n" for k
  proof -
    from that le have k: "k < length ?t" by simp
    then have "?t ! k \<in> set ?t" by (rule nth_mem)
    then have "P (?t ! k)" by (auto dest: set_takeWhileD)
    moreover have "?t ! k = drop i s ! k" using k by (rule takeWhile_nth)
    moreover have "drop i s ! k = s ! (i + k)" using bound that by simp
    ultimately show ?thesis by simp
  qed
  with bound show ?thesis by blast
qed

text \<open>
  Every match of the address pattern closes group 1 over four or five digits and
  group 2 over a non-empty run of class characters.
\<close>

lemma pat_match_shape:
  assumes "(j, g) \<in> set (rmatch pat s (i, []))"
  shows "\<exists>a b c d. g = [(2, c, d), (1, a, b)]
           \<and> (b - a = 4 \<or> b - a = 5) \<and> a \<le> b \<and> b \<le> length s
           \<and> (\<forall>k. a \<le> k \<and> k < b \<longrightarrow> is_digit (s ! k))
           \<and> c < d \<and> d \<le> length s \<and> (\<forall>k. c \<le> k \<and> k < d \<longrightarrow> ort_char (s ! k))"
proof -
  from assms obtain n1 n2 n3 where
    n1: "4 \<le> n1" "n1 \<le> run_length is_digit (Some 5) s i" and
    n2: "1 \<le> n2" "n2 \<le> run_length is_space None s (i + n1)" and
    n3: "1 \<le> n3" "n3 \<le> run_length ort_char None s (i + n1 + n2)" and
    g: "g = [(2, i + n1 + n2, i + n1 + n2 + n3), (1, i, i + n1)]"
    by (auto simp: pat_def split: if_splits)
  have "n1 \<le> 5" using n1(2) by (simp add: run_length_def)
  with n1 have n1': "n1 = 4 \<or> n1 = 5" by arith
  have d: "i + n1 \<le> length s \<and> (\<forall>k<n1. is_digit (s ! (i + k)))"
    using run_length_chars [of n1 is_digit "Some 5" s i] n1 by simp
  have o: "i + n1 + n2 + n3 \<le> length s \<and> (\<forall>k<n3. ort_char (s ! (i + n1 + n2 + k)))"
    using run_length_chars [of n3 ort_char None s "i + n1 + n2"] n3 by simp
  have dk: "is_digit (s ! k)" if "i \<le> k" "k < i + n1" for k
  proof -
    from that have "k - i < n1" by arith
    with d have "is_digit (s ! (i + (k - i)))" by blast
    with that show ?thesis by simp
  qed
  have ok: "ort_char (s ! k)" if "i + n1 + n2 \<le> k" "k < i + n1 + n2 + n3" for k
  proof -
    from that have "k - (i + n1 + n2) < n3" by arith
    with o have "ort_char (s ! (i + n1 + n2 + (k - (i + n1 + n2))))" by blast
    with that show ?thesis by simp
  qed
  show ?thesis
    using g n1' d o dk ok n3
    by (intro exI [of _ i] exI [of _ "i + n1"] exI [of _ "i + n1 + n2"]
          exI [of _ "i + n1 + n2 + n3"]) auto
qed

lemma first_match_SomeD:
  "first_match r s starts = Some g \<Longrightarrow> \<exists>i j. (j, g) \<in> set (rmatch r s (i, []))"
proof (induction starts)
  case Nil
  then show ?case by simp
next
  case (Cons i starts)
  show ?case
  proof (cases "rmatch r s (i, [])")
    case Nil
    with Cons show ?thesis by simp
  next
    case (Cons m ms)
    with Cons.prems have "m = (fst m, g)" by (cases m) simp
    with Cons have "(fst m, g) \<in> set (rmatch r s (i, []))" by simp
    then show ?thesis by blast
  qed
qed

lemma re_search_SomeD:
  assumes "re_search r s = Some g"
  shows "\<exists>i j. (j, g) \<in> set (rmatch r s (i, []))"
  using assms first_match_SomeD unfolding re_search_def by blast

lemma group_digits:
  assumes "map_of g 1 = Some (a, b)" "b - a = 4 \<or> b - a = 5" "b \<le> length s"
    and "\<forall>k. a \<le> k \<and> k < b \<longrightarrow> is_digit (s ! k)"
  shows "strip (match_group s g 1) = match_group s g 1
         \<and> (length (match_group s g 1) = 4 \<or> length (match_group s g 1) = 5)
         \<and> list_all is_digit (match_group s g 1)"
proof -
  have len: "length (match_group s g 1) = b - a"
    using assms(1-3) by (auto simp: match_group_def)
  have dig: "list_all is_digit (match_group s g 1)"
    unfolding list_all_length
  proof (intro allI impI)
    fix n assume "n < length (match_group s g 1)"
    with len have n: "n < b - a" by simp
    with assms(3) have "match_group s g 1 ! n = s ! (a + n)"
      using assms(1) by (simp add: match_group_def)
    moreover have "is_digit (s ! (a + n))" using assms(4) n by simp
    ultimately show "is_digit (match_group s g 1 ! n)" by simp
  qed
  have "\<forall>c \<in> set (match_group s g 1). \<not> is_space c"
    using dig by (auto simp: list_all_iff is_digit_def is_space_def)
  then have "strip (match_group s g 1) = match_group s g 1" by (rule strip_no_space)
  with len dig assms(2) show ?thesis by simp
qed

lemma group_ort:
  assumes "map_of g 2 = Some (c, d)" "d \<le> length s"
    and "\<forall>k. c \<le> k \<and> k < d \<longrightarrow> ort_char (s ! k)"
  shows "list_all ort_char (strip (match_group s g 2))"
proof -
  have "list_all ort_char (match_group s g 2)"
    unfolding list_all_length
  proof (intro allI impI)
    fix n assume "n < length (match_group s g 2)"
    with assms(1,2) have n: "n < d - c" by (simp add: match_group_def)
    with assms(2) have "match_group s g 2 ! n = s ! (c + n)"
      using assms(1) by (simp add: match_group_def)
    moreover have "ort_char (s ! (c + n))" using assms(3) n by simp
    ultimately show "ort_char (match_group s g 2 ! n)" by simp
  qed
  then show ?thesis using strip_subset [of "match_group s g 2"] by (auto simp: list_all_iff)
qed

lemma re_search_pat_groups:
  assumes "re_search pat s = Some m"
  shows "(length (strip (match_group s m 1)) = 4 \<or> length (strip (match_group s m 1)) = 5)
         \<and> list_all is_digit (strip (match_group s m 1))
         \<and> list_all ort_char (strip (match_group s m 2))"
proof -
  from re_search_SomeD [OF assms] obtain i j where "(j, m) \<in> set (rmatch pat s (i, []))"
    by blast
  from pat_match_shape [OF this] obtain a b c d where
    m: "m = [(2, c, d), (1, a, b)]" and ab: "b - a = 4 \<or> b - a = 5" "b \<le> length s"
    and dg: "\<forall>k. a \<le> k \<and> k < b \<longrightarrow> is_digit (s ! k)"
    and cd: "d \<le> length s" and oc: "\<forall>k. c \<le> k \<and> k < d \<longrightarrow> ort_char (s ! k)"
    by blast
  have m1: "map_of m 1 = Some (a, b)" and m2: "map_of m 2 = Some (c, d)" using m by simp_all
  from group_digits [OF m1 ab dg] group_ort [OF m2 cd oc] show ?thesis by simp
qed

lemma plz_ort_shape:
  assumes "plz_ort addr = Some (p, c)"
  shows "(length p = 4 \<or> length p = 5) \<and> list_all is_digit p \<and> list_all ort_char c"
  using assms re_search_pat_groups [of "plz_ort_source addr"] re_search_pat_groups [of addr]
  by (auto simp: plz_ort_def split: option.splits)

text \<open>
  C1, as the specification words it, fails: the street is not the first comma-segment
  trimmed. For the address \<open>", 1010 Wien"\<close> the first segment is empty, and the parser
  drops empty segments before it takes the street, so the street is \<open>"1010 Wien"\<close>.
\<close>

theorem street_first_segment_counterexample:
  "street (extract_address_parts (Some '', 1010 Wien'')) \<noteq> Some (first_trimmed_segment '', 1010 Wien'')"
  by code_simp

text \<open>
  C1, amended. The address \<open>"Hauptstra\<ss>e 1, 1010 Wien"\<close> is parsed into the street
  \<open>"Hauptstra\<ss>e 1"\<close>, the postal code \<open>"1010"\<close> and the city \<open>"Wien"\<close>. For every
  address string, with \<open>segs\<close> its comma-segments trimmed and the empty ones dropped:
  the street is the first of \<open>segs\<close> (null when there is none); the preferred source is
  the second of \<open>segs\<close> if there is one, else the address with the street removed once,
  else the address; postal code and city are groups 1 and 2, trimmed, of the first match
  of the pattern in the preferred source, else of its first match in the whole address;
  both are null exactly when both searches fail. A postal code that is found has four
  or five digits and a city that is found has only characters of the pattern's class.
\<close>

theorem extract_address_parts_tiers:
  "extract_address_parts (Some hauptstrasse)
     = \<lparr>street = Some (''Hauptstra'' @ [CHR 0xDF] @ ''e 1''), plz = Some ''1010'', ort = Some ''Wien''\<rparr>
   \<and> (let segs = filter (\<lambda>p. p \<noteq> []) (map strip (split_on (CHR '','') addr));
           src = (if 1 < length segs then segs ! 1
                  else if segs \<noteq> [] then replace_first (hd segs) addr else addr);
           r = extract_address_parts (Some addr)
       in street r = (if segs = [] then None else Some (hd segs))
        \<and> (\<forall>m. re_search pat src = Some m \<longrightarrow>
               plz r = Some (strip (match_group src m 1)) \<and> ort r = Some (strip (match_group src m 2)))
        \<and> (\<forall>m. re_search pat src = None \<and> re_search pat addr = Some m \<longrightarrow>
               plz r = Some (strip (match_group addr m 1)) \<and> ort r = Some (strip (match_group addr m 2)))
        \<and> (plz r = None) = (re_search pat src = None \<and> re_search pat addr = None)
        \<and> (ort r = None) = (re_search pat src = None \<and> re_search pat addr = None)
        \<and> (\<forall>p. plz r = Some p \<longrightarrow> (length p = 4 \<or> length p = 5) \<and> list_all is_digit p)
        \<and> (\<forall>c. ort r = Some c \<longrightarrow> list_all ort_char c))"
proof -
  have ex: "extract_address_parts (Some hauptstrasse)
     = \<lparr>street = Some (''Hauptstra'' @ [CHR 0xDF] @ ''e 1''), plz = Some ''1010'', ort = Some ''Wien''\<rparr>"
    by code_simp
  define segs where "segs = filter (\<lambda>p. p \<noteq> []) (map strip (split_on (CHR '','') addr))"
  define src where "src = (if 1 < length segs then segs ! 1
                  else if segs \<noteq> [] then replace_first (hd segs) addr else addr)"
  define r where "r = extract_address_parts (Some addr)"
  have segs: "address_segments addr = segs" by (simp add: address_segments_def segs_def)
  have ne: "[] \<notin> set segs" by (simp add: segs_def)
  have src: "plz_ort_source addr = src"
    unfolding plz_ort_source_def segs src_def
    using ne by (auto split: list.splits)
  have s: "street r = (if segs = [] then None else Some (hd segs))"
    by (simp add: r_def extract_address_parts_def segs split: list.splits)
  have p: "plz r = map_option fst (plz_ort addr)" and o: "ort r = map_option snd (plz_ort addr)"
    by (simp_all add: r_def extract_address_parts_def)
  have t1: "plz_ort addr = Some (strip (match_group src m 1), strip (match_group src m 2))"
    if "re_search pat src = Some m" for m
    using that by (simp add: plz_ort_def src)
  have t2: "plz_ort addr = Some (strip (match_group addr m 1), strip (match_group addr m 2))"
    if "re_search pat src = None" "re_search pat addr = Some m" for m
    using that by (simp add: plz_ort_def src)
  have n: "(plz_ort addr = None) = (re_search pat src = None \<and> re_search pat addr = None)"
    by (auto simp: plz_ort_def src split: option.splits)
  have sh1: "(length p = 4 \<or> length p = 5) \<and> list_all is_digit p" if "plz r = Some p" for p
    using that p plz_ort_shape [of addr] by (cases "plz_ort addr") auto
  have sh2: "list_all ort_char c" if "ort r = Some c" for c
    using that o plz_ort_shape [of addr] by (cases "plz_ort addr") auto
  have "street r = (if segs = [] then None else Some (hd segs))
        \<and> (\<forall>m. re_search pat src = Some m \<longrightarrow>
               plz r = Some (strip (match_group src m 1)) \<and> ort r = Some (strip (match_group src m 2)))
        \<and> (\<forall>m. re_search pat src = None \<and> re_search pat addr = Some m \<longrightarrow>
               plz r = Some (strip (match_group addr m 1)) \<and> ort r = Some (strip (match_group addr m 2)))
        \<and> (plz r = None) = (re_search pat src = None \<and> re_search pat addr = None)
        \<and> (ort r = None) = (re_search pat src = None \<and> re_search pat addr = None)
        \<and> (\<forall>p. plz r = Some p \<longrightarrow> (length p = 4 \<or> length p = 5) \<and> list_all is_digit p)
        \<and> (\<forall>c. ort r = Some c \<longrightarrow> list_all ort_char c)"
    using s t1 t2 n sh1 sh2 by (simp add: p o)
  then show ?thesis
    using ex unfolding Let_def segs_def [symmetric] src_def [symmetric] r_def [symmetric] by blast
qed

theorem extract_address_parts_tiers_witness:
  "re_search pat ''1010 Wien'' = Some [(2, 5, 9), (1, 0, 4)]
   \<and> street (extract_address_parts (Some ''Platz 1, 1010 Wien'')) = Some ''Platz 1''
   \<and> plz (extract_address_parts (Some ''Platz 1, 1010 Wien'')) = Some ''1010''
   \<and> ort (extract_address_parts (Some ''Platz 1, 1010 Wien'')) = Some ''Wien''
   \<and> re_search pat [] = None
   \<and> re_search pat ''Platz 1 1220 Wien'' = Some [(2, 13, 17), (1, 8, 12)]
   \<and> plz (extract_address_parts (Some ''Platz 1 1220 Wien'')) = Some ''1220''
   \<and> ort (extract_address_parts (Some ''Platz 1 1220 Wien'')) = Some ''Wien''"
proof -
  have s1: "filter (\<lambda>p. p \<noteq> []) (map strip (split_on (CHR '','') ''Platz 1, 1010 Wien''))
              = [''Platz 1'', ''1010 Wien'']"
    by code_simp
  have m1: "re_search pat ''1010 Wien'' = Some [(2, 5, 9), (1, 0, 4)]"
    by code_simp
  have g1: "strip (match_group ''1010 Wien'' [(2, 5, 9), (1, 0, 4)] 1) = ''1010''"
           "strip (match_group ''1010 Wien'' [(2, 5, 9), (1, 0, 4)] 2) = ''Wien''"
    by code_simp+
  have s2: "filter (\<lambda>p. p \<noteq> []) (map strip (split_on (CHR '','') ''Platz 1 1220 Wien''))
              = [''Platz 1 1220 Wien'']"
    by code_simp
  have r2: "replace_first ''Platz 1 1220 Wien'' ''Platz 1 1220 Wien'' = []"
    by code_simp
  have m2: "re_search pat [] = None"
           "re_search pat ''Platz 1 1220 Wien'' = Some [(2, 13, 17), (1, 8, 12)]"
    by code_simp+
  have g2: "strip (match_group ''Platz 1 1220 Wien'' [(2, 13, 17), (1, 8, 12)] 1) = ''1220''"
           "strip (match_group ''Platz 1 1220 Wien'' [(2, 13, 17), (1, 8, 12)] 2) = ''Wien''"
    by code_simp+
  have a: "street (extract_address_parts (Some ''Platz 1, 1010 Wien'')) = Some ''Platz 1''
   \<and> plz (extract_address_parts (Some ''Platz 1, 1010 Wien'')) = Some ''1010''
   \<and> ort (extract_address_parts (Some ''Platz 1, 1010 Wien'')) = Some ''Wien''"
    using extract_address_parts_tiers [of "''Platz 1, 1010 Wien''"] m1
    unfolding Let_def s1 by (simp add: g1 [unfolded One_nat_def])
  have b: "plz (extract_address_parts (Some ''Platz 1 1220 Wien'')) = Some ''1220''
   \<and> ort (extract_address_parts (Some ''Platz 1 1220 Wien'')) = Some ''Wien''"
    using extract_address_parts_tiers [of "''Platz 1 1220 Wien''"] m2
    unfolding Let_def s2 by (simp add: g2 [unfolded One_nat_def] r2)
  from a b m1 m2 show ?thesis by simp
qed

section \<open>Properties of the post-processor\<close>

lemma set_read_csv: "set (read_csv rows) = {(i, rows ! i) | i. i < length rows}"
proof -
  have "(i, rows ! i) \<in> set (zip [0 ..< length rows] rows)" if "i < length rows" for i
    using that by (auto simp: set_zip intro!: exI [of _ i])
  then show ?thesis by (auto simp: read_csv_def set_zip)
qed

lemma distinct_read_csv: "distinct (map fst (read_csv rows))"
  by (simp add: read_csv_def)

lemma set_sort_values: "set (sort_values df) = set df"
  by (auto simp: sort_values_def)

lemma korrekturen_map: "korrekturen df = map (\<lambda>ir. (fst ir, overwrite_masked (snd ir))) df"
proof (cases "list_ex (\<lambda>ir. mask_gersthof (snd ir)) df")
  case True
  then show ?thesis by (simp add: korrekturen_def)
next
  case False
  then have "\<forall>ir \<in> set df. (fst ir, overwrite_masked (snd ir)) = ir"
    by (auto simp: list_ex_iff overwrite_masked_def)
  then have "map (\<lambda>ir. (fst ir, overwrite_masked (snd ir))) df = df"
    by (simp add: map_idI)
  with False show ?thesis by (simp add: korrekturen_def)
qed

lemma df_out_iff:
  "(i, r) \<in> set (df_out td rows) \<longleftrightarrow>
     i < length rows
     \<and> str_contains_nocase ''wien'' (ort (extract_address_parts (Adresse (rows ! i))))
     \<and> r = overwrite_masked (parse_datum td (select_wanted
              (normalize_labels (rows ! i), extract_address_parts (Adresse (rows ! i)))))"
proof -
  have adr: "Adresse (normalize_labels x) = Adresse x" for x :: "string match_record"
    by (simp add: normalize_labels_def)
  show ?thesis
    unfolding df_out_def korrekturen_map
    by (auto simp: set_sort_values df_wien_def with_address_parts_def set_read_csv adr image_iff)
qed

lemma lower_wien: "lower ''wien'' = ''wien''"
  by code_simp

lemma clean_fields:
  "Ort (overwrite_masked (parse_datum td (select_wanted (r, p)))) = ort p"
  "Heim (overwrite_masked (parse_datum td (select_wanted (r, p)))) = Heim r"
  "Latitude (overwrite_masked (parse_datum td (select_wanted (r, p))))
     = (if Heim r = Some ''Gersthofer SV'' then Some gersthof_lat else Latitude r)"
  "Longitude (overwrite_masked (parse_datum td (select_wanted (r, p))))
     = (if Heim r = Some ''Gersthofer SV'' then Some gersthof_lon else Longitude r)"
  by (simp_all add: overwrite_masked_def parse_datum_def select_wanted_def mask_gersthof_def)

lemma normalize_labels_fields:
  "Heim (normalize_labels r) = Heim r" "Latitude (normalize_labels r) = Latitude r"
  "Longitude (normalize_labels r) = Longitude r" "Adresse (normalize_labels r) = Adresse r"
  by (simp_all add: normalize_labels_def)

lemma df_nan_iff:
  "(i, r) \<in> set (df_nan td rows) \<longleftrightarrow>
     (i, r) \<in> set (df_out td rows) \<and> Latitude r = None \<and> Longitude r = None"
  by (auto simp: df_nan_def)

text \<open>
  C2. Every row of the clean output has a parsed city that is not null and contains
  "wien" when case is ignored; an input row whose parsed city is null or does not
  contain it is, by its index label, in neither the clean output nor the fails output.
\<close>

theorem clean_output_only_wien:
  "(\<forall>ir \<in> set (fst (main to_datetime rows)). \<exists>c. Ort (snd ir) = Some c \<and> contains ''wien'' (lower c))
   \<and> (\<forall>i < length rows.
         (ort (extract_address_parts (Adresse (rows ! i))) = None
          \<or> (\<exists>c. ort (extract_address_parts (Adresse (rows ! i))) = Some c \<and> \<not> contains ''wien'' (lower c)))
         \<longrightarrow> i \<notin> fst ` set (fst (main to_datetime rows)) \<and> i \<notin> fst ` set (snd (main to_datetime rows)))"
proof -
  have a: "\<exists>c. Ort r = Some c \<and> contains ''wien'' (lower c)" if "(i, r) \<in> set (df_out to_datetime rows)" for i r
    using that unfolding df_out_iff
    by (auto simp: clean_fields str_contains_nocase_def lower_wien split: option.splits)
  have b: "i \<notin> fst ` set (df_out to_datetime rows) \<and> i \<notin> fst ` set (df_nan to_datetime rows)"
    if "ort (extract_address_parts (Adresse (rows ! i))) = None
          \<or> (\<exists>c. ort (extract_address_parts (Adresse (rows ! i))) = Some c \<and> \<not> contains ''wien'' (lower c))"
    for i
  proof -
    from that have n: "\<not> str_contains_nocase ''wien'' (ort (extract_address_parts (Adresse (rows ! i))))"
      by (auto simp: str_contains_nocase_def lower_wien)
    then have "(i, r) \<notin> set (df_out to_datetime rows)" for r
      by (simp add: df_out_iff)
    then show ?thesis by (auto simp: df_nan_iff)
  qed
  show ?thesis using a b by (auto simp: main_def)
qed

lemma df_out_row:
  assumes "i < length rows"
    and "str_contains_nocase ''wien'' (ort (extract_address_parts (Adresse (rows ! i))))"
  shows "\<exists>r. (i, r) \<in> set (df_out td rows)
           \<and> Ort r = ort (extract_address_parts (Adresse (rows ! i)))
           \<and> Heim r = Heim (rows ! i)
           \<and> Latitude r = (if Heim (rows ! i) = Some ''Gersthofer SV'' then Some gersthof_lat else Latitude (rows ! i))
           \<and> Longitude r = (if Heim (rows ! i) = Some ''Gersthofer SV'' then Some gersthof_lon else Longitude (rows ! i))"
  using assms unfolding df_out_iff by (simp add: clean_fields normalize_labels_fields)

lemma example_rows_wien:
  "str_contains_nocase ''wien'' (ort (extract_address_parts (Adresse (example_rows ! 0))))"
  "str_contains_nocase ''wien'' (ort (extract_address_parts (Adresse (example_rows ! 1))))"
  "ort (extract_address_parts (Adresse (example_rows ! 2))) = Some ''Musterdorf''"
  "str_contains_nocase ''wien'' (ort (extract_address_parts (Adresse (example_rows ! 3))))"
  "str_contains_nocase ''wien'' (ort (extract_address_parts (Adresse (example_rows ! 4))))"
  by code_simp+

lemma example_rows_fields:
  "length example_rows = 5"
  "Heim (example_rows ! 1) = Some ''Gersthofer SV''"
  "Latitude (example_rows ! 1) = None" "Longitude (example_rows ! 1) = None"
  "Heim (example_rows ! 3) = Some ''FC Stadlau''"
  "Latitude (example_rows ! 3) = None" "Longitude (example_rows ! 3) = None"
  "Heim (example_rows ! 4) = Some ''SV Donau''"
  "Latitude (example_rows ! 4) = None" "Longitude (example_rows ! 4) = Some 16.4"
  by (simp_all add: example_rows_def example_row_def)

theorem clean_output_only_wien_witness:
  "2 < length example_rows
   \<and> ort (extract_address_parts (Adresse (example_rows ! 2))) = Some ''Musterdorf''
   \<and> \<not> contains ''wien'' (lower ''Musterdorf'')
   \<and> 2 \<notin> fst ` set (fst (main (\<lambda>_. None) example_rows))
   \<and> 2 \<notin> fst ` set (snd (main (\<lambda>_. None) example_rows))
   \<and> (\<exists>r. (0, r) \<in> set (fst (main (\<lambda>_. None) example_rows))
          \<and> (\<exists>c. Ort r = Some c \<and> contains ''wien'' (lower c)))"
proof -
  have l: "2 < length example_rows" by (simp add: example_rows_fields)
  note o = example_rows_wien(3)
  have c: "\<not> contains ''wien'' (lower ''Musterdorf'')" by code_simp
  from df_out_row [of 0 example_rows "\<lambda>_. None"] example_rows_wien(1)
  obtain r where r: "(0, r) \<in> set (fst (main (\<lambda>_. None) example_rows))"
    by (auto simp: example_rows_fields main_def)
  note t = clean_output_only_wien [of "\<lambda>_. None" example_rows]
  from t r have "\<exists>c. Ort r = Some c \<and> contains ''wien'' (lower c)"
    by fastforce
  with r have e: "\<exists>r. (0, r) \<in> set (fst (main (\<lambda>_. None) example_rows))
          \<and> (\<exists>c. Ort r = Some c \<and> contains ''wien'' (lower c))"
    by blast
  from t l o c have "2 \<notin> fst ` set (fst (main (\<lambda>_. None) example_rows))
     \<and> 2 \<notin> fst ` set (snd (main (\<lambda>_. None) example_rows))"
    by blast
  with l o c e show ?thesis by blast
qed

text \<open>
  C5. The fails output holds exactly the rows of the clean output, the rows already
  filtered to Vienna and corrected, whose latitude and longitude are both null: a clean
  row with only one of the two null is not in it, and every fails row is a row of the
  clean output. By index label, an input row is in the fails output exactly when its
  parsed city contains "wien", its home team is not the corrected one and both of its
  scraped coordinates are null.
\<close>

theorem fails_both_coordinates_null:
  "set (snd (main to_datetime rows)) \<subseteq> set (fst (main to_datetime rows))
   \<and> (\<forall>ir \<in> set (fst (main to_datetime rows)).
        (ir \<in> set (snd (main to_datetime rows))) = (Latitude (snd ir) = None \<and> Longitude (snd ir) = None))
   \<and> (\<forall>ir \<in> set (fst (main to_datetime rows)).
        (Latitude (snd ir) = None) \<noteq> (Longitude (snd ir) = None) \<longrightarrow> ir \<notin> set (snd (main to_datetime rows)))
   \<and> (\<forall>i. (i \<in> fst ` set (snd (main to_datetime rows))) =
        (i < length rows
         \<and> str_contains_nocase ''wien'' (ort (extract_address_parts (Adresse (rows ! i))))
         \<and> Heim (rows ! i) \<noteq> Some ''Gersthofer SV''
         \<and> Latitude (rows ! i) = None \<and> Longitude (rows ! i) = None))"
proof -
  have 1: "set (df_nan to_datetime rows) \<subseteq> set (df_out to_datetime rows)"
    by (auto simp: df_nan_def)
  have 2: "(ir \<in> set (df_nan to_datetime rows)) = (Latitude (snd ir) = None \<and> Longitude (snd ir) = None)"
    if "ir \<in> set (df_out to_datetime rows)" for ir
    using that by (simp add: df_nan_def)
  have 3: "(i \<in> fst ` set (df_nan to_datetime rows)) =
        (i < length rows
         \<and> str_contains_nocase ''wien'' (ort (extract_address_parts (Adresse (rows ! i))))
         \<and> Heim (rows ! i) \<noteq> Some ''Gersthofer SV''
         \<and> Latitude (rows ! i) = None \<and> Longitude (rows ! i) = None)" for i
  proof -
    have "(i \<in> fst ` set (df_nan to_datetime rows)) = (\<exists>r. (i, r) \<in> set (df_nan to_datetime rows))"
      by force
    then show ?thesis
      unfolding df_nan_iff df_out_iff
      by (auto simp: clean_fields normalize_labels_fields)
  qed
  show ?thesis using 1 2 3 unfolding main_def fst_conv snd_conv by blast
qed

theorem fails_both_coordinates_null_witness:
  "(\<exists>r. (4, r) \<in> set (fst (main (\<lambda>_. None) example_rows))
        \<and> Latitude r = None \<and> Longitude r = Some 16.4
        \<and> (4, r) \<notin> set (snd (main (\<lambda>_. None) example_rows)))
   \<and> Latitude (example_rows ! 3) = None \<and> Longitude (example_rows ! 3) = None
   \<and> 3 \<in> fst ` set (snd (main (\<lambda>_. None) example_rows))
   \<and> 3 \<in> fst ` set (fst (main (\<lambda>_. None) example_rows))"
proof -
  note t = fails_both_coordinates_null [of "\<lambda>_. None" example_rows]
  from t have sub: "set (snd (main (\<lambda>_. None) example_rows)) \<subseteq> set (fst (main (\<lambda>_. None) example_rows))"
    by (rule conjunct1)
  from t have one: "\<forall>ir \<in> set (fst (main (\<lambda>_. None) example_rows)).
        (Latitude (snd ir) = None) \<noteq> (Longitude (snd ir) = None) \<longrightarrow> ir \<notin> set (snd (main (\<lambda>_. None) example_rows))"
    by (elim conjE)
  from t have ch: "\<forall>i. (i \<in> fst ` set (snd (main (\<lambda>_. None) example_rows))) =
        (i < length example_rows
         \<and> str_contains_nocase ''wien'' (ort (extract_address_parts (Adresse (example_rows ! i))))
         \<and> Heim (example_rows ! i) \<noteq> Some ''Gersthofer SV''
         \<and> Latitude (example_rows ! i) = None \<and> Longitude (example_rows ! i) = None)"
    by (elim conjE)
  from df_out_row [of 4 example_rows "\<lambda>_. None"] example_rows_wien(5)
  obtain r where r: "(4, r) \<in> set (fst (main (\<lambda>_. None) example_rows))"
    "Latitude r = None" "Longitude r = Some 16.4"
    by (auto simp: example_rows_fields main_def)
  from one r have n: "(4, r) \<notin> set (snd (main (\<lambda>_. None) example_rows))"
    by fastforce
  from ch example_rows_wien(4) have f: "3 \<in> fst ` set (snd (main (\<lambda>_. None) example_rows))"
    by (simp add: example_rows_fields)
  from sub f have i: "3 \<in> fst ` set (fst (main (\<lambda>_. None) example_rows))"
    by blast
  from r n f i show ?thesis by (auto simp: example_rows_fields)
qed

text \<open>
  C6. In the clean output every row whose home team is exactly "Gersthofer SV" has the
  latitude 48.225324870552456 and the longitude 16.328420452719126, whatever the scraped
  coordinates were, null included: every input row of that home team whose parsed city
  contains "wien" is in the clean output with these coordinates.
\<close>

theorem gersthofer_coordinates_overwritten:
  "(\<forall>ir \<in> set (fst (main to_datetime rows)).
        Heim (snd ir) = Some ''Gersthofer SV'' \<longrightarrow>
        Latitude (snd ir) = Some 48.225324870552456 \<and> Longitude (snd ir) = Some 16.328420452719126)
   \<and> (\<forall>i < length rows.
        Heim (rows ! i) = Some ''Gersthofer SV''
        \<and> str_contains_nocase ''wien'' (ort (extract_address_parts (Adresse (rows ! i))))
        \<longrightarrow> (\<exists>r. (i, r) \<in> set (fst (main to_datetime rows))
                 \<and> Heim r = Some ''Gersthofer SV''
                 \<and> Latitude r = Some 48.225324870552456 \<and> Longitude r = Some 16.328420452719126))"
proof -
  have a: "Latitude r = Some 48.225324870552456 \<and> Longitude r = Some 16.328420452719126"
    if "(i, r) \<in> set (df_out to_datetime rows)" "Heim r = Some ''Gersthofer SV''" for i r
    using that unfolding df_out_iff
    by (auto simp: clean_fields normalize_labels_fields gersthof_lat_def gersthof_lon_def)
  have b: "\<exists>r. (i, r) \<in> set (df_out to_datetime rows) \<and> Heim r = Some ''Gersthofer SV''
                 \<and> Latitude r = Some 48.225324870552456 \<and> Longitude r = Some 16.328420452719126"
    if "i < length rows" "Heim (rows ! i) = Some ''Gersthofer SV''"
       "str_contains_nocase ''wien'' (ort (extract_address_parts (Adresse (rows ! i))))" for i
    using that unfolding df_out_iff
    by (simp add: clean_fields normalize_labels_fields gersthof_lat_def gersthof_lon_def)
  have A: "\<forall>ir \<in> set (df_out to_datetime rows).
        Heim (snd ir) = Some ''Gersthofer SV'' \<longrightarrow>
        Latitude (snd ir) = Some 48.225324870552456 \<and> Longitude (snd ir) = Some 16.328420452719126"
  proof (intro ballI impI)
    fix ir assume "ir \<in> set (df_out to_datetime rows)" "Heim (snd ir) = Some ''Gersthofer SV''"
    with a [of "fst ir" "snd ir"]
    show "Latitude (snd ir) = Some 48.225324870552456 \<and> Longitude (snd ir) = Some 16.328420452719126"
      by simp
  qed
  have B: "\<forall>i < length rows.
        Heim (rows ! i) = Some ''Gersthofer SV''
        \<and> str_contains_nocase ''wien'' (ort (extract_address_parts (Adresse (rows ! i))))
        \<longrightarrow> (\<exists>r. (i, r) \<in> set (df_out to_datetime rows)
                 \<and> Heim r = Some ''Gersthofer SV''
                 \<and> Latitude r = Some 48.225324870552456 \<and> Longitude r = Some 16.328420452719126)"
  proof (intro allI impI)
    fix i assume "i < length rows" "Heim (rows ! i) = Some ''Gersthofer SV''
        \<and> str_contains_nocase ''wien'' (ort (extract_address_parts (Adresse (rows ! i))))"
    then show "\<exists>r. (i, r) \<in> set (df_out to_datetime rows)
                 \<and> Heim r = Some ''Gersthofer SV''
                 \<and> Latitude r = Some 48.225324870552456 \<and> Longitude r = Some 16.328420452719126"
      using b [of i] by simp
  qed
  show ?thesis unfolding main_def fst_conv by (intro conjI A B)
qed

theorem gersthofer_coordinates_overwritten_witness:
  "1 < length example_rows
   \<and> Heim (example_rows ! 1) = Some ''Gersthofer SV''
   \<and> Latitude (example_rows ! 1) = None \<and> Longitude (example_rows ! 1) = None
   \<and> str_contains_nocase ''wien'' (ort (extract_address_parts (Adresse (example_rows ! 1))))
   \<and> (\<exists>r. (1, r) \<in> set (fst (main (\<lambda>_. None) example_rows))
          \<and> Heim r = Some ''Gersthofer SV''
          \<and> Latitude r = Some 48.225324870552456 \<and> Longitude r = Some 16.328420452719126)"
proof -
  have l: "1 < length example_rows" by (simp add: example_rows_fields)
  note h = example_rows_fields(2) and c = example_rows_fields(3,4) and w = example_rows_wien(2)
  note t = gersthofer_coordinates_overwritten [of "\<lambda>_. None" example_rows]
  from t [THEN conjunct2, rule_format, of 1] l h w
  have e: "\<exists>r. (1, r) \<in> set (fst (main (\<lambda>_. None) example_rows))
          \<and> Heim r = Some ''Gersthofer SV''
          \<and> Latitude r = Some 48.225324870552456 \<and> Longitude r = Some 16.328420452719126"
    by simp
  from l h c w e show ?thesis by (intro conjI)
qed

section \<open>Properties of the JSON emitter\<close>

lemma build_record_lookup:
  "map_of (build_record conv row) ''Spielort PLZ'' = Some (json_of_int (to_int_or_none (row ''PLZ'')))"
  "map_of (build_record conv row) ''Spielort'' = Some (JString (text_field conv (row ''Spielort_Name'')))"
  by (simp_all add: build_record_def strasse_key_def)

lemma py_int_1190: "py_int (strip ''1190'') = Some 1190"
  by code_simp

text \<open>
  C9 holds for the postal code and for a missing column, and fails for a null cell. On
  the row \<open>venue_missing_row\<close>, whose venue name is the NaN that pandas reads from an
  empty cell, \<open>build_record\<close> emits the string "nan" in the field "Spielort", not the
  empty string: NaN is true, so \<open>v or ""\<close> keeps it and \<open>str\<close> turns it into
  text. The postal code "1190" is emitted as the integer 1190, and a row without the
  column \<open>Spielort_Name\<close> emits the empty string.
\<close>

theorem build_record_venue_nan:
  "map_of (build_record conv venue_missing_row) ''Spielort'' = Some (JString ''nan'')
   \<and> map_of (build_record conv venue_missing_row) ''Spielort PLZ'' = Some (JInt 1190)
   \<and> map_of (build_record conv Map.empty) ''Spielort'' = Some (JString [])"
  by (simp add: build_record_lookup venue_missing_row_def text_field_def isinstance_str_def
      or_empty_def truthy_def py_str_def to_int_or_none_def json_of_int_def py_int_1190)

section \<open>Properties of the coordinate polling\<close>

lemma find_usable: "find usable_coords xs = Some obj \<Longrightarrow> usable_coords obj"
  by (auto simp: find_Some_iff)

lemma read_coords_nonzero:
  assumes "read_coords sg = Some (lat, lon)"
  shows "\<not> (lat = JsNumber 0 \<and> lon = JsNumber 0)"
proof -
  from assms obtain obj where
    "usable_coords obj" "lat = get_prop obj ''latitude''" "lon = get_prop obj ''longitude''"
    by (auto simp: read_coords_def split: option.splits dest: find_usable)
  then show ?thesis by (auto simp: usable_coords_def zero_lat_lon_def)
qed

lemma to_python_zero: "to_python v = Some 0 \<Longrightarrow> v = JsNumber 0"
  by (cases v) auto

lemma wait_until_never_ready:
  "\<forall>p \<in> set polls. \<exists>sg. p = Inr sg \<and> \<not> ready sg \<Longrightarrow> wait_until ready polls = Some (TimeoutException [])"
  by (induction polls) auto

lemma only_zero_not_ready:
  assumes "\<forall>obj \<in> set (scanned_objects (app_preloads sg)). has_lat_lon obj \<longrightarrow> zero_lat_lon obj"
  shows "\<not> coords_ready sg"
  using assms by (auto simp: coords_ready_def list_ex_iff usable_coords_def)

text \<open>
  C4. \<open>get_coordinates\<close> never returns the pair (0, 0), whatever the polls and the
  final read observe: its result is (None, None) or a pair that differs from (0, 0). If
  every poll inside the time limit observes page data whose only entries with a numeric
  latitude and longitude are exactly (0, 0), the wait times out and the result is
  (None, None).
\<close>

theorem get_coordinates_never_zero:
  "get_coordinates polls final \<noteq> (Some 0, Some 0)
   \<and> ((\<forall>p \<in> set polls. \<exists>sg. p = Inr sg
          \<and> (\<forall>obj \<in> set (scanned_objects (app_preloads sg)). has_lat_lon obj \<longrightarrow> zero_lat_lon obj))
        \<longrightarrow> get_coordinates polls final = (None, None))"
proof -
  have a: "get_coordinates polls final \<noteq> (Some 0, Some 0)"
    using read_coords_nonzero to_python_zero
    by (auto simp: get_coordinates_def split: option.splits sum.splits)
  have b: "get_coordinates polls final = (None, None)"
    if "\<forall>p \<in> set polls. \<exists>sg. p = Inr sg
          \<and> (\<forall>obj \<in> set (scanned_objects (app_preloads sg)). has_lat_lon obj \<longrightarrow> zero_lat_lon obj)"
  proof -
    from that have "\<forall>p \<in> set polls. \<exists>sg. p = Inr sg \<and> \<not> coords_ready sg"
      using only_zero_not_ready by blast
    then have "wait_until coords_ready polls = Some (TimeoutException [])"
      by (rule wait_until_never_ready)
    then show ?thesis by (simp add: get_coordinates_def)
  qed
  from a b show ?thesis by blast
qed

lemma scanned_page_with_coords:
  "scanned_objects (app_preloads (page_with_coords lat lon))
     = [JsObject [(''latitude'', JsNumber lat), (''longitude'', JsNumber lon)]]"
  by (simp add: page_with_coords_def app_preloads_def scanned_objects_def)

theorem get_coordinates_never_zero_witness:
  "(\<forall>p \<in> set [Inr (page_with_coords 0 0), Inr (page_with_coords 0 0)]. \<exists>sg. p = Inr sg
       \<and> (\<forall>obj \<in> set (scanned_objects (app_preloads sg)). has_lat_lon obj \<longrightarrow> zero_lat_lon obj)) = True
   \<and> get_coordinates [Inr (page_with_coords 0 0), Inr (page_with_coords 0 0)] (Inr (page_with_coords 48 16))
       = (None, None)
   \<and> get_coordinates [Inr (page_with_coords 0 0), Inr (page_with_coords 48 16)] (Inr (page_with_coords 48 16))
       = (Some 48, Some 16)
   \<and> get_coordinates [Inr (page_with_coords 0 0), Inr (page_with_coords 48 16)] (Inr (page_with_coords 48 16))
       \<noteq> (Some 0, Some 0)"
proof -
  have h: "\<forall>p \<in> set [Inr (page_with_coords 0 0), Inr (page_with_coords 0 0)]. \<exists>sg. p = Inr sg
       \<and> (\<forall>obj \<in> set (scanned_objects (app_preloads sg)). has_lat_lon obj \<longrightarrow> zero_lat_lon obj)"
    by (simp add: scanned_page_with_coords zero_lat_lon_def)
  from get_coordinates_never_zero [of "[Inr (page_with_coords 0 0), Inr (page_with_coords 0 0)]"
      "Inr (page_with_coords 48 16)"] h
  have n: "get_coordinates [Inr (page_with_coords 0 0), Inr (page_with_coords 0 0)] (Inr (page_with_coords 48 16))
       = (None, None)"
    by blast
  have v: "get_coordinates [Inr (page_with_coords 0 0), Inr (page_with_coords 48 16)] (Inr (page_with_coords 48 16))
       = (Some 48, Some 16)"
    by (simp add: get_coordinates_def coords_ready_def read_coords_def scanned_page_with_coords
        usable_coords_def has_lat_lon_def zero_lat_lon_def)
      (simp add: page_with_coords_def app_preloads_def)
  from h n v show ?thesis by simp
qed

section \<open>Properties of the extraction of one page\<close>

lemma safe_get_loop_last:
  assumes "\<forall>i \<in> set idx. get i = Some (e i) \<and> is_webdriver_exception (e i)" "idx \<noteq> []" "last idx = attempts"
    "attempts \<notin> set (butlast idx)"
  shows "safe_get_loop get attempts idx = Some (e attempts)"
  using assms
proof (induction idx)
  case Nil
  then show ?case by simp
next
  case (Cons i rest)
  show ?case
  proof (cases "rest = []")
    case True
    with Cons.prems show ?thesis by simp
  next
    case False
    with Cons.prems have "i \<noteq> attempts" by auto
    moreover have "safe_get_loop get attempts rest = Some (e attempts)"
      using Cons.IH Cons.prems False by auto
    ultimately show ?thesis using Cons.prems by simp
  qed
qed

lemma extract_row_steps:
  "safe_get (driver_get s) 3 = Some e \<Longrightarrow> extract_row td s w = Inl e"
  "safe_get (driver_get s) 3 = None \<Longrightarrow> container_wait s = Some e \<Longrightarrow> extract_row td s w = Inl e"
  "safe_get (driver_get s) 3 = None \<Longrightarrow> container_wait s = None \<Longrightarrow> round_text s = Inl e
     \<Longrightarrow> extract_row td s w = Inl e"
  "safe_get (driver_get s) 3 = None \<Longrightarrow> container_wait s = None \<Longrightarrow> round_text s = Inr r
     \<Longrightarrow> date_text s = Inl e \<Longrightarrow> extract_row td s w = Inl e"
  "safe_get (driver_get s) 3 = None \<Longrightarrow> container_wait s = None \<Longrightarrow> round_text s = Inr r
     \<Longrightarrow> date_text s = Inr d \<Longrightarrow> read_team_links s = Inl e \<Longrightarrow> extract_row td s w = Inl e"
  by (simp_all add: extract_row_def)

lemma extract_row_bewerb:
  "safe_get (driver_get s) 3 = None \<Longrightarrow> container_wait s = None \<Longrightarrow> round_text s = Inr r
     \<Longrightarrow> date_text s = Inr d \<Longrightarrow> read_team_links s = Inr (a, b)
     \<Longrightarrow> team_name a = Inr hn \<Longrightarrow> team_name b = Inr gn \<Longrightarrow> team_href a = Inr hl \<Longrightarrow> team_href b = Inr gl
     \<Longrightarrow> get_bewerb (bewerb_polls s) (bewerb_final s) = Inl e \<Longrightarrow> extract_row td s w = Inl e"
  by (simp add: extract_row_def)

lemma extract_row_Inr_error: "extract_row td s w = Inr row \<Longrightarrow> error row = None \<and> Quelle row = Some w"
  by (auto simp: extract_row_def Let_def split: option.splits sum.splits prod.splits)

lemma mine_game_Quelle: "mine_game td s w = Inr row \<Longrightarrow> Quelle row = Some w"
  by (auto simp: mine_game_def error_row_def split: option.splits sum.splits dest: extract_row_Inr_error)

text \<open>The row that the controller appends for a link, whatever its task does.\<close>

lemma fold_complete_one:
  "results (fold (complete_one td ss k) ls st)
     = results st @ map (\<lambda>l. case mine_game td (ss l) l of Inl e \<Rightarrow> future_exception_row l e | Inr r \<Rightarrow> r) ls"
  by (induction ls arbitrary: st) (simp_all add: complete_one_def Let_def)

lemma appended_row_Quelle:
  "Quelle (case mine_game td s l of Inl e \<Rightarrow> future_exception_row l e | Inr r \<Rightarrow> r) = Some l"
  by (cases "mine_game td s l") (simp_all add: future_exception_row_def mine_game_Quelle)

lemma run_parallel_results:
  assumes "mset (as_completed (filter (\<lambda>l. l \<notin> set (map link_str (case existing of None \<Rightarrow> [] | Some rows \<Rightarrow> rows)))
                 (load_links hrefs)))
           = mset (filter (\<lambda>l. l \<notin> set (map link_str (case existing of None \<Rightarrow> [] | Some rows \<Rightarrow> rows)))
                 (load_links hrefs))"
  shows "take (length (case existing of None \<Rightarrow> [] | Some rows \<Rightarrow> rows))
             (results (run_parallel td ss as_completed hrefs existing k))
           = (case existing of None \<Rightarrow> [] | Some rows \<Rightarrow> rows)
         \<and> map Quelle (drop (length (case existing of None \<Rightarrow> [] | Some rows \<Rightarrow> rows))
             (results (run_parallel td ss as_completed hrefs existing k)))
           = map Some (as_completed (filter (\<lambda>l. l \<notin> set (map link_str (case existing of None \<Rightarrow> [] | Some rows \<Rightarrow> rows)))
                 (load_links hrefs)))
         \<and> out_csv (run_parallel td ss as_completed hrefs existing k)
           = Some (results (run_parallel td ss as_completed hrefs existing k))"
proof -
  define old where "old = (case existing of None \<Rightarrow> [] | Some rows \<Rightarrow> rows)"
  define todo where "todo = filter (\<lambda>l. l \<notin> set (map link_str old)) (load_links hrefs)"
  have hs: "(case existing of None \<Rightarrow> {} | Some rows \<Rightarrow> set (map link_str rows)) = set (map link_str old)"
    by (simp add: old_def split: option.splits)
  from assms have perm: "mset (as_completed todo) = mset todo"
    by (simp add: old_def todo_def)
  have todo_eq: "filter (\<lambda>l. l \<notin> link_str ` set old) (load_links hrefs) = todo"
    by (simp add: todo_def)
  have start: "(case existing of None \<Rightarrow> [] | Some rows \<Rightarrow> rows) = old"
    by (simp add: old_def)
  show ?thesis
  proof (cases "todo = []")
    case True
    with perm have ac: "as_completed todo = []" by simp
    have "results (run_parallel td ss as_completed hrefs existing k) = old"
      and "out_csv (run_parallel td ss as_completed hrefs existing k) = Some old"
      using True by (cases existing; simp add: run_parallel_def Let_def todo_def old_def)+
    then show ?thesis
      unfolding start using ac True by (simp add: todo_eq)
  next
    case False
    have r: "results (run_parallel td ss as_completed hrefs existing k)
        = old @ map (\<lambda>l. case mine_game td (ss l) l of Inl e \<Rightarrow> future_exception_row l e | Inr r \<Rightarrow> r)
                  (as_completed todo)"
      and o: "out_csv (run_parallel td ss as_completed hrefs existing k)
        = Some (results (run_parallel td ss as_completed hrefs existing k))"
      using False by (simp_all add: run_parallel_def Let_def hs todo_eq start fold_complete_one)
    show ?thesis
      unfolding start using o
      by (simp add: r todo_eq appended_row_Quelle comp_def)
  qed
qed

text \<open>
  C3. Once the browser of a link has started, any exception inside the extraction (the
  navigation with its retries, the wait for the container, the round and date texts,
  the team links, the competition label) is turned into a row whose entries are all
  null except the source link, the normalised link and the message of the exception,
  and \<open>mine_game\<close> returns it; nothing escapes. In the controller every link of the
  work list gets exactly one row, in the order of completion, whatever the sessions do,
  also when a task raises because its browser does not start, and the final write holds
  all rows: a failing link does not end the batch.
\<close>

theorem mine_game_isolates_failures:
  "(open_driver s = None \<longrightarrow>
      (\<exists>row. mine_game to_datetime s weblink = Inr row)
      \<and> (\<forall>e. extract_row to_datetime s weblink = Inl e \<longrightarrow>
            mine_game to_datetime s weblink =
              Inr \<lparr>Datum = None, Liga = None, Typ = None, Runde = None, Heim = None, Gast = None,
                   Spielort_Name = None, Latitude = None, Longitude = None, Quelle = Some weblink,
                   Heim_Link = None, Gast_Link = None, Adresse = None,
                   link = Some (normalize_link weblink), error = Some (message e)\<rparr>)
      \<and> (\<forall>e. safe_get (driver_get s) 3 = Some e
               \<or> safe_get (driver_get s) 3 = None \<and> container_wait s = Some e
               \<or> safe_get (driver_get s) 3 = None \<and> container_wait s = None \<and> round_text s = Inl e
               \<or> safe_get (driver_get s) 3 = None \<and> container_wait s = None
                    \<and> (\<exists>r. round_text s = Inr r) \<and> date_text s = Inl e
               \<or> safe_get (driver_get s) 3 = None \<and> container_wait s = None
                    \<and> (\<exists>r. round_text s = Inr r) \<and> (\<exists>d. date_text s = Inr d) \<and> read_team_links s = Inl e
               \<longrightarrow> extract_row to_datetime s weblink = Inl e))
   \<and> (mset (as_completed (filter (\<lambda>l. l \<notin> set (map link_str (case existing of None \<Rightarrow> [] | Some rows \<Rightarrow> rows)))
                 (load_links hrefs)))
        = mset (filter (\<lambda>l. l \<notin> set (map link_str (case existing of None \<Rightarrow> [] | Some rows \<Rightarrow> rows)))
                 (load_links hrefs))
      \<longrightarrow>
        take (length (case existing of None \<Rightarrow> [] | Some rows \<Rightarrow> rows))
             (results (run_parallel to_datetime sessions as_completed hrefs existing flush_every))
           = (case existing of None \<Rightarrow> [] | Some rows \<Rightarrow> rows)
        \<and> map Quelle (drop (length (case existing of None \<Rightarrow> [] | Some rows \<Rightarrow> rows))
             (results (run_parallel to_datetime sessions as_completed hrefs existing flush_every)))
           = map Some (as_completed (filter (\<lambda>l. l \<notin> set (map link_str (case existing of None \<Rightarrow> [] | Some rows \<Rightarrow> rows)))
                 (load_links hrefs)))
        \<and> out_csv (run_parallel to_datetime sessions as_completed hrefs existing flush_every)
           = Some (results (run_parallel to_datetime sessions as_completed hrefs existing flush_every)))"
proof -
  have a: "\<exists>row. mine_game to_datetime s weblink = Inr row" if "open_driver s = None"
    using that by (simp add: mine_game_def split: sum.splits)
  have b: "mine_game to_datetime s weblink =
              Inr \<lparr>Datum = None, Liga = None, Typ = None, Runde = None, Heim = None, Gast = None,
                   Spielort_Name = None, Latitude = None, Longitude = None, Quelle = Some weblink,
                   Heim_Link = None, Gast_Link = None, Adresse = None,
                   link = Some (normalize_link weblink), error = Some (message e)\<rparr>"
    if "open_driver s = None" "extract_row to_datetime s weblink = Inl e" for e
    using that by (simp add: mine_game_def error_row_def)
  have c: "extract_row to_datetime s weblink = Inl e"
    if "safe_get (driver_get s) 3 = Some e
               \<or> safe_get (driver_get s) 3 = None \<and> container_wait s = Some e
               \<or> safe_get (driver_get s) 3 = None \<and> container_wait s = None \<and> round_text s = Inl e
               \<or> safe_get (driver_get s) 3 = None \<and> container_wait s = None
                    \<and> (\<exists>r. round_text s = Inr r) \<and> date_text s = Inl e
               \<or> safe_get (driver_get s) 3 = None \<and> container_wait s = None
                    \<and> (\<exists>r. round_text s = Inr r) \<and> (\<exists>d. date_text s = Inr d) \<and> read_team_links s = Inl e" for e
    using that by (elim disjE conjE exE) (simp_all add: extract_row_steps)
  from a b c run_parallel_results [of as_completed existing hrefs to_datetime sessions flush_every]
  show ?thesis by blast
qed

lemma unreachable_facts:
  "open_driver unreachable_session = None"
  "safe_get (driver_get unreachable_session) 3 = Some (TimeoutException ''timeout'')"
  by (simp_all add: unreachable_session_def good_session_def safe_get_def upt_rec)

lemma example_load_links: "load_links [''a'', ''b''] = [''a'', ''b'']"
  by code_simp

theorem mine_game_isolates_failures_witness:
  "open_driver unreachable_session = None
   \<and> safe_get (driver_get unreachable_session) 3 = Some (TimeoutException ''timeout'')
   \<and> mine_game (\<lambda>_. None) unreachable_session ''x'' =
        Inr \<lparr>Datum = None, Liga = None, Typ = None, Runde = None, Heim = None, Gast = None,
             Spielort_Name = None, Latitude = None, Longitude = None, Quelle = Some ''x'',
             Heim_Link = None, Gast_Link = None, Adresse = None,
             link = Some (normalize_link ''x''), error = Some ''timeout''\<rparr>
   \<and> map Quelle (results (run_parallel (\<lambda>_. None)
          (\<lambda>l. if l = ''a'' then unreachable_session else no_browser_session) rev [''a'', ''b''] None 25))
        = [Some ''b'', Some ''a'']"
proof -
  note t1 = mine_game_isolates_failures [of unreachable_session "\<lambda>_. None" "''x''" rev None "[''a'', ''b'']"
      "\<lambda>l. if l = ''a'' then unreachable_session else no_browser_session" 25]
  from t1 have s1: "open_driver unreachable_session = None \<longrightarrow>
      (\<forall>e. extract_row (\<lambda>_. None) unreachable_session ''x'' = Inl e \<longrightarrow>
            mine_game (\<lambda>_. None) unreachable_session ''x'' =
              Inr \<lparr>Datum = None, Liga = None, Typ = None, Runde = None, Heim = None, Gast = None,
                   Spielort_Name = None, Latitude = None, Longitude = None, Quelle = Some ''x'',
                   Heim_Link = None, Gast_Link = None, Adresse = None,
                   link = Some (normalize_link ''x''), error = Some (message e)\<rparr>)
      \<and> (\<forall>e. safe_get (driver_get unreachable_session) 3 = Some e
             \<longrightarrow> extract_row (\<lambda>_. None) unreachable_session ''x'' = Inl e)"
    by blast
  from s1 unreachable_facts
  have x: "extract_row (\<lambda>_. None) unreachable_session ''x'' = Inl (TimeoutException ''timeout'')"
    by blast
  from s1 unreachable_facts x
  have m: "mine_game (\<lambda>_. None) unreachable_session ''x'' =
        Inr \<lparr>Datum = None, Liga = None, Typ = None, Runde = None, Heim = None, Gast = None,
             Spielort_Name = None, Latitude = None, Longitude = None, Quelle = Some ''x'',
             Heim_Link = None, Gast_Link = None, Adresse = None,
             link = Some (normalize_link ''x''), error = Some ''timeout''\<rparr>"
    by force
  from t1 [THEN conjunct2]
  have b: "map Quelle (results (run_parallel (\<lambda>_. None)
          (\<lambda>l. if l = ''a'' then unreachable_session else no_browser_session) rev [''a'', ''b''] None 25))
        = [Some ''b'', Some ''a'']"
    by (simp add: example_load_links)
  from unreachable_facts m b show ?thesis by (intro conjI)
qed

section \<open>Coordinates that never resolve\<close>

lemma extract_row_coords:
  assumes "extract_row td s w = Inr row"
  shows "extract_row td (s\<lparr>coord_polls := ps, coord_final := f\<rparr>) w
           = Inr (row\<lparr>Latitude := fst (get_coordinates ps f), Longitude := snd (get_coordinates ps f)\<rparr>)"
  using assms
  by (auto simp: extract_row_def Let_def read_team_links_def spielort_and_adresse_def
      split: option.splits sum.splits prod.splits)

lemma get_coordinates_failure:
  assumes "wait_until coords_ready ps \<noteq> None \<or> (\<exists>e. f = Inl e)"
  shows "get_coordinates ps f = (None, None)"
  using assms by (auto simp: get_coordinates_def split: option.splits)

text \<open>
  C10. A failure of the coordinate polling alone makes no error row. The polls and the
  final read of \<open>get_coordinates\<close> reach the row only through its latitude and
  longitude: if the extraction of a session gives a row, then with any other polls and
  final read it gives the same row with the coordinates of those. The row has no error
  entry. \<open>get_coordinates\<close> returns (None, None) when its wait times out or raises
  and when its reading script raises, so such a session yields, from \<open>mine_game\<close>, the
  row with both coordinates null, every other entry as extracted and no error entry.
\<close>

theorem coordinate_failure_no_error_row:
  "(extract_row to_datetime s weblink = Inr row \<longrightarrow>
      error row = None
      \<and> extract_row to_datetime (s\<lparr>coord_polls := ps, coord_final := f\<rparr>) weblink
           = Inr (row\<lparr>Latitude := fst (get_coordinates ps f), Longitude := snd (get_coordinates ps f)\<rparr>))
   \<and> (wait_until coords_ready ps \<noteq> None \<or> (\<exists>e. f = Inl e) \<longrightarrow> get_coordinates ps f = (None, None))
   \<and> (open_driver s = None \<and> extract_row to_datetime s weblink = Inr row
        \<and> (wait_until coords_ready ps \<noteq> None \<or> (\<exists>e. f = Inl e))
      \<longrightarrow> mine_game to_datetime (s\<lparr>coord_polls := ps, coord_final := f\<rparr>) weblink
            = Inr (row\<lparr>Latitude := None, Longitude := None\<rparr>)
          \<and> error (row\<lparr>Latitude := None, Longitude := None\<rparr>) = None)"
proof -
  have a: "error row = None" if "extract_row to_datetime s weblink = Inr row"
    using that extract_row_Inr_error by blast
  note b = extract_row_coords [where td = to_datetime and s = s and w = weblink and row = row and ps = ps and f = f]
  note c = get_coordinates_failure [where ps = ps and f = f]
  have d: "mine_game to_datetime (s\<lparr>coord_polls := ps, coord_final := f\<rparr>) weblink
            = Inr (row\<lparr>Latitude := None, Longitude := None\<rparr>)
          \<and> error (row\<lparr>Latitude := None, Longitude := None\<rparr>) = None"
    if "open_driver s = None" "extract_row to_datetime s weblink = Inr row"
       "wait_until coords_ready ps \<noteq> None \<or> (\<exists>e. f = Inl e)"
    using that a b c by (simp add: mine_game_def)
  from a b c d show ?thesis by blast
qed

lemma good_session_row:
  "extract_row (\<lambda>_. None) (good_session 48 16) ''x'' =
     Inr \<lparr>Datum = None, Liga = Some [], Typ = Some ''Mann'', Runde = Some ''Runde 1'',
          Heim = Some ''Heim'', Gast = Some ''Gast'', Spielort_Name = Some [],
          Latitude = Some 48, Longitude = Some 16, Quelle = Some ''x'',
          Heim_Link = Some [], Gast_Link = Some [], Adresse = Some [],
          link = Some ''x'', error = None\<rparr>"
  by code_simp

lemma zero_page_times_out: "wait_until coords_ready [Inr (page_with_coords 0 0)] \<noteq> None"
  by code_simp

theorem coordinate_failure_no_error_row_witness:
  "open_driver (good_session 48 16) = None
   \<and> wait_until coords_ready [Inr (page_with_coords 0 0)] \<noteq> None
   \<and> mine_game (\<lambda>_. None)
        ((good_session 48 16)\<lparr>coord_polls := [Inr (page_with_coords 0 0)],
                               coord_final := Inr (page_with_coords 0 0)\<rparr>) ''x'' =
       Inr \<lparr>Datum = None, Liga = Some [], Typ = Some ''Mann'', Runde = Some ''Runde 1'',
            Heim = Some ''Heim'', Gast = Some ''Gast'', Spielort_Name = Some [],
            Latitude = None, Longitude = None, Quelle = Some ''x'',
            Heim_Link = Some [], Gast_Link = Some [], Adresse = Some [],
            link = Some ''x'', error = None\<rparr>"
proof -
  have o: "open_driver (good_session 48 16) = None" by (simp add: good_session_def)
  note t = coordinate_failure_no_error_row [where s = "good_session 48 16" and to_datetime = "\<lambda>_. None"
      and weblink = "''x''" and ps = "[Inr (page_with_coords 0 0)]" and f = "Inr (page_with_coords 0 0)",
      THEN conjunct2, THEN conjunct2, rule_format, OF conjI [OF o conjI [OF good_session_row disjI1 [OF zero_page_times_out]]]]
  from t have "mine_game (\<lambda>_. None)
        ((good_session 48 16)\<lparr>coord_polls := [Inr (page_with_coords 0 0)],
                               coord_final := Inr (page_with_coords 0 0)\<rparr>) ''x'' =
       Inr \<lparr>Datum = None, Liga = Some [], Typ = Some ''Mann'', Runde = Some ''Runde 1'',
            Heim = Some ''Heim'', Gast = Some ''Gast'', Spielort_Name = Some [],
            Latitude = None, Longitude = None, Quelle = Some ''x'',
            Heim_Link = Some [], Gast_Link = Some [], Adresse = Some [],
            link = Some ''x'', error = None\<rparr>"
    by simp
  with o zero_page_times_out show ?thesis by (intro conjI)
qed

end
